theory Spec2Isabelle
  imports Main
begin

section \<open>Sheet settings: data model\<close>

text \<open>
  The embedding follows \<^verbatim>\<open>model/gurps/sheet_settings.go\<close>. Types whose declarations live
  in other packages are type parameters:
  \<^item> \<open>'pg\<close>, \<open>'bl\<close>, \<open>'ad\<close>, \<open>'bd\<close>: \<^verbatim>\<open>PageSettings\<close>, \<^verbatim>\<open>BlockLayout\<close>, \<^verbatim>\<open>AttributeDefs\<close>, \<^verbatim>\<open>Body\<close>;
  \<^item> \<open>'dp\<close>, \<open>'lu\<close>, \<open>'wu\<close>, \<open>'ds\<close>: the enumerations \<^verbatim>\<open>progression.Option\<close>,
    \<^verbatim>\<open>fxp.LengthUnit\<close>, \<^verbatim>\<open>fxp.WeightUnit\<close>, \<^verbatim>\<open>display.Option\<close>;
  \<^item> \<open>'n\<close>: the fixed-point number \<^verbatim>\<open>fxp.Int\<close>;
  \<^item> \<open>'en\<close>: \<^verbatim>\<open>Entity\<close>.
  A Go pointer field is an \<open>option\<close>: \<open>None\<close> is \<^verbatim>\<open>nil\<close>. The zero value of a Go type is
  \<open>0\<close> of the corresponding parameter (sort \<open>zero\<close>), \<open>False\<close> for \<^verbatim>\<open>bool\<close>.
\<close>

record ('pg, 'bl, 'ad, 'bd, 'dp, 'lu, 'wu, 'ds, 'n) SheetSettingsData =
  Page :: "'pg option"
  BlockLayout :: "'bl option"
  Attributes :: "'ad option"
  BodyType :: "'bd option"
  DamageProgression :: 'dp
  DefaultLengthUnits :: 'lu
  DefaultWeightUnits :: 'wu
  UserDescriptionDisplay :: 'ds
  ModifiersDisplay :: 'ds
  NotesDisplay :: 'ds
  SkillLevelAdjDisplay :: 'ds
  UseMultiplicativeModifiers :: bool
  UseModifyingDicePlusAdds :: bool
  UseHalfStatDefaults :: bool
  ShowTraitModifierAdj :: bool
  ShowEquipmentModifierAdj :: bool
  ShowAllWeapons :: bool
  ShowSpellAdj :: bool
  HideSourceMismatch :: bool
  HideTLColumn :: bool
  HideLCColumn :: bool
  HidePageRefColumn :: bool
  UseTitleInFooter :: bool
  ExcludeUnspentPointsFromTotal :: bool
  ShowLiftingSTDamage :: bool
  ShowIQBasedDamage :: bool
  UseSkillModifierAdjustments :: bool
  EasySkillModifierOverride :: 'n
  AverageSkillModifierOverride :: 'n
  HardSkillModifierOverride :: 'n
  VeryHardSkillModifierOverride :: 'n
  EasySkillModifierAdjustment :: 'n
  AverageSkillModifierAdjustment :: 'n
  HardSkillModifierAdjustment :: 'n
  VeryHardSkillModifierAdjustment :: 'n
  UseBasicMoveForDodge :: bool
  IncludeDodgeFlatBonus :: bool
  IncludePDArmor :: bool
  IncludePDShields :: bool
  UsePassiveDefense :: bool
  ShowPDColumn :: bool
  DodgeOverride :: 'n

text \<open>\<^verbatim>\<open>SheetSettings\<close> embeds \<^verbatim>\<open>SheetSettingsData\<close> and adds the owning entity.\<close>

record ('pg, 'bl, 'ad, 'bd, 'dp, 'lu, 'wu, 'ds, 'n, 'en) SheetSettings =
  "('pg, 'bl, 'ad, 'bd, 'dp, 'lu, 'wu, 'ds, 'n) SheetSettingsData" +
  Entity :: "'en option"

text \<open>
  The functions of other packages that \<^verbatim>\<open>sheet_settings.go\<close> calls, and the enumeration
  constants it names, are collected in one record of collaborators that every operation
  receives.
\<close>

record ('pg, 'bl, 'ad, 'bd, 'dp, 'lu, 'wu, 'ds) collaborators =
  NewPageSettings :: 'pg
  PageSettings_EnsureValidity :: "'pg \<Rightarrow> 'pg"
  NewBlockLayout :: 'bl
  BlockLayout_EnsureValidity :: "'bl \<Rightarrow> 'bl"
  FactoryAttributeDefs :: 'ad
  FactoryBody :: 'bd
  progression_EnsureValid :: "'dp \<Rightarrow> 'dp"
  LengthUnit_EnsureValid :: "'lu \<Rightarrow> 'lu"
  WeightUnit_EnsureValid :: "'wu \<Rightarrow> 'wu"
  display_EnsureValid :: "'ds \<Rightarrow> 'ds"
  progression_BasicSet :: 'dp
  fxp_FeetAndInches :: 'lu
  fxp_Pound :: 'wu
  display_Tooltip :: 'ds
  display_Inline :: 'ds

section \<open>EnsureValidity\<close>

text \<open>The two local conditions of the legacy heuristic, and the test of its \<^verbatim>\<open>if\<close>.\<close>

definition dodgeFieldsAtDefaults ::
  "('pg, 'bl, 'ad, 'bd, 'dp, 'lu, 'wu, 'ds, 'n, 'en) SheetSettings \<Rightarrow> bool" where
  "dodgeFieldsAtDefaults s = (\<not> IncludeDodgeFlatBonus s \<and> \<not> UseBasicMoveForDodge s)"

definition skillModifierFieldsAtDefaults ::
  "('pg, 'bl, 'ad, 'bd, 'dp, 'lu, 'wu, 'ds, 'n::zero, 'en) SheetSettings \<Rightarrow> bool" where
  "skillModifierFieldsAtDefaults s =
     (\<not> UseSkillModifierAdjustments s \<and>
      EasySkillModifierOverride s = 0 \<and> AverageSkillModifierOverride s = 0 \<and>
      HardSkillModifierOverride s = 0 \<and> VeryHardSkillModifierOverride s = 0 \<and>
      EasySkillModifierAdjustment s = 0 \<and> AverageSkillModifierAdjustment s = 0 \<and>
      HardSkillModifierAdjustment s = 0 \<and> VeryHardSkillModifierAdjustment s = 0)"

definition legacyHeuristicFires ::
  "('pg, 'bl, 'ad, 'bd, 'dp, 'lu, 'wu, 'ds, 'n::zero, 'en) SheetSettings \<Rightarrow> bool" where
  "legacyHeuristicFires s = (dodgeFieldsAtDefaults s \<and> skillModifierFieldsAtDefaults s)"

text \<open>
  \<^verbatim>\<open>EnsureValidity\<close> mutates its receiver; the model returns the new document. The steps
  are in the order of the source: the four sub-documents, the seven enumerations, the
  legacy heuristic, the passive-defense mirror.
\<close>

definition EnsureValidity ::
  "('pg, 'bl, 'ad, 'bd, 'dp, 'lu, 'wu, 'ds) collaborators \<Rightarrow>
   ('pg, 'bl, 'ad, 'bd, 'dp, 'lu, 'wu, 'ds, 'n::zero, 'en) SheetSettings \<Rightarrow>
   ('pg, 'bl, 'ad, 'bd, 'dp, 'lu, 'wu, 'ds, 'n, 'en) SheetSettings" where
  "EnsureValidity env s0 =
     (let s = s0\<lparr>Page := (case Page s0 of
                              None \<Rightarrow> Some (NewPageSettings env)
                            | Some p \<Rightarrow> Some (PageSettings_EnsureValidity env p))\<rparr>;
          s = s\<lparr>BlockLayout := (case BlockLayout s of
                                   None \<Rightarrow> Some (NewBlockLayout env)
                                 | Some b \<Rightarrow> Some (BlockLayout_EnsureValidity env b))\<rparr>;
          s = (if Attributes s = None then s\<lparr>Attributes := Some (FactoryAttributeDefs env)\<rparr> else s);
          s = (if BodyType s = None then s\<lparr>BodyType := Some (FactoryBody env)\<rparr> else s);
          s = s\<lparr>DamageProgression := progression_EnsureValid env (DamageProgression s)\<rparr>;
          s = s\<lparr>DefaultLengthUnits := LengthUnit_EnsureValid env (DefaultLengthUnits s)\<rparr>;
          s = s\<lparr>DefaultWeightUnits := WeightUnit_EnsureValid env (DefaultWeightUnits s)\<rparr>;
          s = s\<lparr>UserDescriptionDisplay := display_EnsureValid env (UserDescriptionDisplay s)\<rparr>;
          s = s\<lparr>ModifiersDisplay := display_EnsureValid env (ModifiersDisplay s)\<rparr>;
          s = s\<lparr>NotesDisplay := display_EnsureValid env (NotesDisplay s)\<rparr>;
          s = s\<lparr>SkillLevelAdjDisplay := display_EnsureValid env (SkillLevelAdjDisplay s)\<rparr>;
          s = (if legacyHeuristicFires s then s\<lparr>IncludeDodgeFlatBonus := True\<rparr> else s)
      in s\<lparr>ShowPDColumn := UsePassiveDefense s\<rparr>)"


section \<open>Zero values and factory defaults\<close>

text \<open>The zero value of the Go structs: what \<^verbatim>\<open>var s SheetSettings\<close> holds.\<close>

definition zero_SheetSettingsData ::
  "('pg, 'bl, 'ad, 'bd, 'dp::zero, 'lu::zero, 'wu::zero, 'ds::zero, 'n::zero) SheetSettingsData" where
  "zero_SheetSettingsData =
     \<lparr>Page = None, BlockLayout = None, Attributes = None, BodyType = None,
      DamageProgression = 0, DefaultLengthUnits = 0, DefaultWeightUnits = 0,
      UserDescriptionDisplay = 0, ModifiersDisplay = 0, NotesDisplay = 0,
      SkillLevelAdjDisplay = 0,
      UseMultiplicativeModifiers = False, UseModifyingDicePlusAdds = False,
      UseHalfStatDefaults = False, ShowTraitModifierAdj = False,
      ShowEquipmentModifierAdj = False, ShowAllWeapons = False, ShowSpellAdj = False,
      HideSourceMismatch = False, HideTLColumn = False, HideLCColumn = False,
      HidePageRefColumn = False, UseTitleInFooter = False,
      ExcludeUnspentPointsFromTotal = False, ShowLiftingSTDamage = False,
      ShowIQBasedDamage = False, UseSkillModifierAdjustments = False,
      EasySkillModifierOverride = 0, AverageSkillModifierOverride = 0,
      HardSkillModifierOverride = 0, VeryHardSkillModifierOverride = 0,
      EasySkillModifierAdjustment = 0, AverageSkillModifierAdjustment = 0,
      HardSkillModifierAdjustment = 0, VeryHardSkillModifierAdjustment = 0,
      UseBasicMoveForDodge = False, IncludeDodgeFlatBonus = False,
      IncludePDArmor = False, IncludePDShields = False, UsePassiveDefense = False,
      ShowPDColumn = False, DodgeOverride = 0\<rparr>"

definition zero_SheetSettings ::
  "('pg, 'bl, 'ad, 'bd, 'dp::zero, 'lu::zero, 'wu::zero, 'ds::zero, 'n::zero, 'en) SheetSettings" where
  "zero_SheetSettings =
     SheetSettingsData.extend zero_SheetSettingsData (SheetSettings.fields None)"

text \<open>
  \<^verbatim>\<open>FactorySheetSettings\<close>: a composite literal; the fields it does not list, or lists as
  \<^verbatim>\<open>false\<close>, are zero.
\<close>

definition FactorySheetSettings ::
  "('pg, 'bl, 'ad, 'bd, 'dp::zero, 'lu::zero, 'wu::zero, 'ds::zero) collaborators \<Rightarrow>
   ('pg, 'bl, 'ad, 'bd, 'dp, 'lu, 'wu, 'ds, 'n::zero, 'en) SheetSettings" where
  "FactorySheetSettings env =
     zero_SheetSettings
       \<lparr>Page := Some (NewPageSettings env),
        BlockLayout := Some (NewBlockLayout env),
        Attributes := Some (FactoryAttributeDefs env),
        BodyType := Some (FactoryBody env),
        DamageProgression := progression_BasicSet env,
        DefaultLengthUnits := fxp_FeetAndInches env,
        DefaultWeightUnits := fxp_Pound env,
        UserDescriptionDisplay := display_Tooltip env,
        ModifiersDisplay := display_Inline env,
        NotesDisplay := display_Inline env,
        SkillLevelAdjDisplay := display_Tooltip env,
        ShowSpellAdj := True,
        UseBasicMoveForDodge := False,
        IncludeDodgeFlatBonus := True,
        IncludePDArmor := False,
        IncludePDShields := False,
        UsePassiveDefense := False\<rparr>"

section \<open>JSON form of the settings\<close>

text \<open>
  A parsed JSON object, as far as this code reads or writes it: one optional member per
  key of the struct tags (\<open>None\<close>: the key is absent or \<^verbatim>\<open>null\<close>), each member already
  decoded by its own type. The last two keys are only read.
\<close>

record ('pg, 'bl, 'ad, 'bd, 'dp, 'lu, 'wu, 'ds, 'n) json_object =
  page :: "'pg option"
  block_layout :: "'bl option"
  attributes :: "'ad option"
  body_type :: "'bd option"
  damage_progression :: "'dp option"
  default_length_units :: "'lu option"
  default_weight_units :: "'wu option"
  user_description_display :: "'ds option"
  modifiers_display :: "'ds option"
  notes_display :: "'ds option"
  skill_level_adj_display :: "'ds option"
  use_multiplicative_modifiers :: "bool option"
  use_modifying_dice_plus_adds :: "bool option"
  use_half_stat_defaults :: "bool option"
  show_trait_modifier_adj :: "bool option"
  show_equipment_modifier_adj :: "bool option"
  show_all_weapons :: "bool option"
  show_spell_adj :: "bool option"
  hide_source_mismatch :: "bool option"
  hide_tl_column :: "bool option"
  hide_lc_column :: "bool option"
  hide_page_ref_column :: "bool option"
  use_title_in_footer :: "bool option"
  exclude_unspent_points_from_total :: "bool option"
  show_lifting_st_damage :: "bool option"
  show_iq_based_damage :: "bool option"
  use_skill_modifier_adjustments :: "bool option"
  easy_skill_modifier_override :: "'n option"
  average_skill_modifier_override :: "'n option"
  hard_skill_modifier_override :: "'n option"
  very_hard_skill_modifier_override :: "'n option"
  easy_skill_modifier_adjustment :: "'n option"
  average_skill_modifier_adjustment :: "'n option"
  hard_skill_modifier_adjustment :: "'n option"
  very_hard_skill_modifier_adjustment :: "'n option"
  use_basic_move_for_dodge :: "bool option"
  include_dodge_flat_bonus :: "bool option"
  include_pd_armor :: "bool option"
  include_pd_shields :: "bool option"
  use_passive_defense :: "bool option"
  show_pd_column :: "bool option"
  dodge_override :: "'n option"
  hit_locations :: "'bd option"
  show_advantage_modifier_adj :: "bool option"

text \<open>The tag \<^verbatim>\<open>omitzero\<close>: a member is written only when the field is not its zero value.\<close>

definition omitzero :: "'a::zero \<Rightarrow> 'a option" where
  "omitzero v = (if v = 0 then None else Some v)"

definition omitzero_bool :: "bool \<Rightarrow> bool option" where
  "omitzero_bool b = (if b then Some True else None)"

text \<open>Decoding into a fresh struct: an absent member leaves the field at its zero value.\<close>

definition member_or_zero :: "'a::zero option \<Rightarrow> 'a" where
  "member_or_zero m = (case m of None \<Rightarrow> 0 | Some v \<Rightarrow> v)"

definition member_or_false :: "bool option \<Rightarrow> bool" where
  "member_or_false m = (case m of None \<Rightarrow> False | Some b \<Rightarrow> b)"

text \<open>
  \<^verbatim>\<open>MarshalJSONTo\<close> encodes the embedded \<^verbatim>\<open>SheetSettingsData\<close> by its struct tags: the four
  pointers and every \<^verbatim>\<open>bool\<close> and \<^verbatim>\<open>fxp.Int\<close> field carry \<^verbatim>\<open>omitzero\<close>, the seven
  enumerations do not. The entity is not written.
\<close>

definition MarshalJSONTo ::
  "('pg, 'bl, 'ad, 'bd, 'dp, 'lu, 'wu, 'ds, 'n::zero, 'en) SheetSettings \<Rightarrow>
   ('pg, 'bl, 'ad, 'bd, 'dp, 'lu, 'wu, 'ds, 'n) json_object" where
  "MarshalJSONTo s =
     \<lparr>page = Page s,
      block_layout = BlockLayout s,
      attributes = Attributes s,
      body_type = BodyType s,
      damage_progression = Some (DamageProgression s),
      default_length_units = Some (DefaultLengthUnits s),
      default_weight_units = Some (DefaultWeightUnits s),
      user_description_display = Some (UserDescriptionDisplay s),
      modifiers_display = Some (ModifiersDisplay s),
      notes_display = Some (NotesDisplay s),
      skill_level_adj_display = Some (SkillLevelAdjDisplay s),
      use_multiplicative_modifiers = omitzero_bool (UseMultiplicativeModifiers s),
      use_modifying_dice_plus_adds = omitzero_bool (UseModifyingDicePlusAdds s),
      use_half_stat_defaults = omitzero_bool (UseHalfStatDefaults s),
      show_trait_modifier_adj = omitzero_bool (ShowTraitModifierAdj s),
      show_equipment_modifier_adj = omitzero_bool (ShowEquipmentModifierAdj s),
      show_all_weapons = omitzero_bool (ShowAllWeapons s),
      show_spell_adj = omitzero_bool (ShowSpellAdj s),
      hide_source_mismatch = omitzero_bool (HideSourceMismatch s),
      hide_tl_column = omitzero_bool (HideTLColumn s),
      hide_lc_column = omitzero_bool (HideLCColumn s),
      hide_page_ref_column = omitzero_bool (HidePageRefColumn s),
      use_title_in_footer = omitzero_bool (UseTitleInFooter s),
      exclude_unspent_points_from_total = omitzero_bool (ExcludeUnspentPointsFromTotal s),
      show_lifting_st_damage = omitzero_bool (ShowLiftingSTDamage s),
      show_iq_based_damage = omitzero_bool (ShowIQBasedDamage s),
      use_skill_modifier_adjustments = omitzero_bool (UseSkillModifierAdjustments s),
      easy_skill_modifier_override = omitzero (EasySkillModifierOverride s),
      average_skill_modifier_override = omitzero (AverageSkillModifierOverride s),
      hard_skill_modifier_override = omitzero (HardSkillModifierOverride s),
      very_hard_skill_modifier_override = omitzero (VeryHardSkillModifierOverride s),
      easy_skill_modifier_adjustment = omitzero (EasySkillModifierAdjustment s),
      average_skill_modifier_adjustment = omitzero (AverageSkillModifierAdjustment s),
      hard_skill_modifier_adjustment = omitzero (HardSkillModifierAdjustment s),
      very_hard_skill_modifier_adjustment = omitzero (VeryHardSkillModifierAdjustment s),
      use_basic_move_for_dodge = omitzero_bool (UseBasicMoveForDodge s),
      include_dodge_flat_bonus = omitzero_bool (IncludeDodgeFlatBonus s),
      include_pd_armor = omitzero_bool (IncludePDArmor s),
      include_pd_shields = omitzero_bool (IncludePDShields s),
      use_passive_defense = omitzero_bool (UsePassiveDefense s),
      show_pd_column = omitzero_bool (ShowPDColumn s),
      dodge_override = omitzero (DodgeOverride s),
      hit_locations = None,
      show_advantage_modifier_adj = None\<rparr>"

text \<open>
  The local struct \<^verbatim>\<open>content\<close> of \<^verbatim>\<open>UnmarshalJSONFrom\<close>: the data plus the two deprecated
  members, and its decoding from a JSON object by the struct tags.
\<close>

record ('pg, 'bl, 'ad, 'bd, 'dp, 'lu, 'wu, 'ds, 'n) content =
  "('pg, 'bl, 'ad, 'bd, 'dp, 'lu, 'wu, 'ds, 'n) SheetSettingsData" +
  OldBodyType :: "'bd option"
  OldShowTraitModifierAdj :: bool

definition decode_content ::
  "('pg, 'bl, 'ad, 'bd, 'dp::zero, 'lu::zero, 'wu::zero, 'ds::zero, 'n::zero) json_object \<Rightarrow>
   ('pg, 'bl, 'ad, 'bd, 'dp, 'lu, 'wu, 'ds, 'n) content" where
  "decode_content j =
     \<lparr>Page = page j,
      BlockLayout = block_layout j,
      Attributes = attributes j,
      BodyType = body_type j,
      DamageProgression = member_or_zero (damage_progression j),
      DefaultLengthUnits = member_or_zero (default_length_units j),
      DefaultWeightUnits = member_or_zero (default_weight_units j),
      UserDescriptionDisplay = member_or_zero (user_description_display j),
      ModifiersDisplay = member_or_zero (modifiers_display j),
      NotesDisplay = member_or_zero (notes_display j),
      SkillLevelAdjDisplay = member_or_zero (skill_level_adj_display j),
      UseMultiplicativeModifiers = member_or_false (use_multiplicative_modifiers j),
      UseModifyingDicePlusAdds = member_or_false (use_modifying_dice_plus_adds j),
      UseHalfStatDefaults = member_or_false (use_half_stat_defaults j),
      ShowTraitModifierAdj = member_or_false (show_trait_modifier_adj j),
      ShowEquipmentModifierAdj = member_or_false (show_equipment_modifier_adj j),
      ShowAllWeapons = member_or_false (show_all_weapons j),
      ShowSpellAdj = member_or_false (show_spell_adj j),
      HideSourceMismatch = member_or_false (hide_source_mismatch j),
      HideTLColumn = member_or_false (hide_tl_column j),
      HideLCColumn = member_or_false (hide_lc_column j),
      HidePageRefColumn = member_or_false (hide_page_ref_column j),
      UseTitleInFooter = member_or_false (use_title_in_footer j),
      ExcludeUnspentPointsFromTotal = member_or_false (exclude_unspent_points_from_total j),
      ShowLiftingSTDamage = member_or_false (show_lifting_st_damage j),
      ShowIQBasedDamage = member_or_false (show_iq_based_damage j),
      UseSkillModifierAdjustments = member_or_false (use_skill_modifier_adjustments j),
      EasySkillModifierOverride = member_or_zero (easy_skill_modifier_override j),
      AverageSkillModifierOverride = member_or_zero (average_skill_modifier_override j),
      HardSkillModifierOverride = member_or_zero (hard_skill_modifier_override j),
      VeryHardSkillModifierOverride = member_or_zero (very_hard_skill_modifier_override j),
      EasySkillModifierAdjustment = member_or_zero (easy_skill_modifier_adjustment j),
      AverageSkillModifierAdjustment = member_or_zero (average_skill_modifier_adjustment j),
      HardSkillModifierAdjustment = member_or_zero (hard_skill_modifier_adjustment j),
      VeryHardSkillModifierAdjustment = member_or_zero (very_hard_skill_modifier_adjustment j),
      UseBasicMoveForDodge = member_or_false (use_basic_move_for_dodge j),
      IncludeDodgeFlatBonus = member_or_false (include_dodge_flat_bonus j),
      IncludePDArmor = member_or_false (include_pd_armor j),
      IncludePDShields = member_or_false (include_pd_shields j),
      UsePassiveDefense = member_or_false (use_passive_defense j),
      ShowPDColumn = member_or_false (show_pd_column j),
      DodgeOverride = member_or_zero (dodge_override j),
      OldBodyType = hit_locations j,
      OldShowTraitModifierAdj = member_or_false (show_advantage_modifier_adj j)\<rparr>"

text \<open>
  \<^verbatim>\<open>UnmarshalJSONFrom\<close>. The decoder argument is what reading the next value from it
  gives: an error, or a JSON object. On an error the receiver is not touched and the
  error is returned; otherwise the receiver's data is replaced (its entity is kept), the
  two deprecated members are migrated and the document is made valid.
\<close>

definition UnmarshalJSONFrom ::
  "('pg, 'bl, 'ad, 'bd, 'dp, 'lu, 'wu, 'ds) collaborators \<Rightarrow>
   ('pg, 'bl, 'ad, 'bd, 'dp::zero, 'lu::zero, 'wu::zero, 'ds::zero, 'n::zero, 'en) SheetSettings \<Rightarrow>
   'err + ('pg, 'bl, 'ad, 'bd, 'dp, 'lu, 'wu, 'ds, 'n) json_object \<Rightarrow>
   'err + ('pg, 'bl, 'ad, 'bd, 'dp, 'lu, 'wu, 'ds, 'n, 'en) SheetSettings" where
  "UnmarshalJSONFrom env s0 dec =
     (case dec of
        Inl err \<Rightarrow> Inl err
      | Inr j \<Rightarrow>
          (let content = decode_content j;
               s = SheetSettingsData.extend (SheetSettingsData.truncate content)
                     (SheetSettingsData.more s0);
               s = (if BodyType s = None \<and> OldBodyType content \<noteq> None
                    then s\<lparr>BodyType := OldBodyType content\<rparr> else s);
               s = (if \<not> ShowTraitModifierAdj s \<and> OldShowTraitModifierAdj content
                    then s\<lparr>ShowTraitModifierAdj := True\<rparr> else s)
           in Inr (EnsureValidity env s)))"

section \<open>Loading from a file\<close>

text \<open>The local struct \<^verbatim>\<open>data\<close> of \<^verbatim>\<open>NewSheetSettingsFromFile\<close>.\<close>

record ('pg, 'bl, 'ad, 'bd, 'dp, 'lu, 'wu, 'ds, 'n, 'en) data =
  "('pg, 'bl, 'ad, 'bd, 'dp, 'lu, 'wu, 'ds, 'n, 'en) SheetSettings" +
  OldLocation :: "('pg, 'bl, 'ad, 'bd, 'dp, 'lu, 'wu, 'ds, 'n, 'en) SheetSettings option"

text \<open>
  \<^verbatim>\<open>NewSheetSettingsFromFile\<close>. \<^verbatim>\<open>jio.Load\<close> belongs to another package; it is the
  parameter \<open>jio_Load\<close>, which for a file system and a path gives an error or the filled
  struct \<^verbatim>\<open>data\<close>. The member \<^verbatim>\<open>OldLocation\<close> is the one tagged \<^verbatim>\<open>sheet_settings\<close>.
\<close>

definition NewSheetSettingsFromFile ::
  "('pg, 'bl, 'ad, 'bd, 'dp, 'lu, 'wu, 'ds) collaborators \<Rightarrow>
   ('fs \<Rightarrow> 'path \<Rightarrow> 'err + ('pg, 'bl, 'ad, 'bd, 'dp, 'lu, 'wu, 'ds, 'n::zero, 'en) data) \<Rightarrow>
   'fs \<Rightarrow> 'path \<Rightarrow>
   'err + ('pg, 'bl, 'ad, 'bd, 'dp, 'lu, 'wu, 'ds, 'n, 'en) SheetSettings" where
  "NewSheetSettingsFromFile env jio_Load fileSystem filePath =
     (case jio_Load fileSystem filePath of
        Inl err \<Rightarrow> Inl err
      | Inr data \<Rightarrow>
          (let s = (case OldLocation data of
                      Some old \<Rightarrow> old
                    | None \<Rightarrow> SheetSettings.truncate data)
           in Inr (EnsureValidity env s)))"

text \<open>
  The top-level object of a settings file: the members of a document and the wrapper
  member \<^verbatim>\<open>sheet_settings\<close> of the old format, which holds a document of its own.
\<close>

record ('pg, 'bl, 'ad, 'bd, 'dp, 'lu, 'wu, 'ds, 'n) file_object =
  "('pg, 'bl, 'ad, 'bd, 'dp, 'lu, 'wu, 'ds, 'n) json_object" +
  sheet_settings :: "('pg, 'bl, 'ad, 'bd, 'dp, 'lu, 'wu, 'ds, 'n) json_object option"

text \<open>The object \<^verbatim>\<open>{}\<close>.\<close>

definition empty_json_object ::
  "('pg, 'bl, 'ad, 'bd, 'dp, 'lu, 'wu, 'ds, 'n) json_object" where
  "empty_json_object =
     \<lparr>page = None, block_layout = None, attributes = None, body_type = None,
      damage_progression = None, default_length_units = None, default_weight_units = None,
      user_description_display = None, modifiers_display = None, notes_display = None,
      skill_level_adj_display = None,
      use_multiplicative_modifiers = None, use_modifying_dice_plus_adds = None,
      use_half_stat_defaults = None, show_trait_modifier_adj = None,
      show_equipment_modifier_adj = None, show_all_weapons = None, show_spell_adj = None,
      hide_source_mismatch = None, hide_tl_column = None, hide_lc_column = None,
      hide_page_ref_column = None, use_title_in_footer = None,
      exclude_unspent_points_from_total = None, show_lifting_st_damage = None,
      show_iq_based_damage = None, use_skill_modifier_adjustments = None,
      easy_skill_modifier_override = None, average_skill_modifier_override = None,
      hard_skill_modifier_override = None, very_hard_skill_modifier_override = None,
      easy_skill_modifier_adjustment = None, average_skill_modifier_adjustment = None,
      hard_skill_modifier_adjustment = None, very_hard_skill_modifier_adjustment = None,
      use_basic_move_for_dodge = None, include_dodge_flat_bonus = None,
      include_pd_armor = None, include_pd_shields = None, use_passive_defense = None,
      show_pd_column = None, dodge_override = None,
      hit_locations = None, show_advantage_modifier_adj = None\<rparr>"

text \<open>
  What \<^verbatim>\<open>jio.Load(fileSystem, filePath, &data)\<close> does with the struct of
  \<^verbatim>\<open>NewSheetSettingsFromFile\<close>. A file system gives, for a path, an error (no such file,
  or not JSON) or the top-level object. The struct embeds \<^verbatim>\<open>SheetSettings\<close>, so the method
  \<^verbatim>\<open>UnmarshalJSONFrom\<close> that the source declares on \<^verbatim>\<open>*SheetSettings\<close> is promoted to the
  struct, and the JSON decoder, which calls that method on a value that has it, gives it
  the whole top-level object with the embedded document as receiver. The method decodes
  into its local struct \<^verbatim>\<open>content\<close>, which has no member tagged \<^verbatim>\<open>sheet_settings\<close>: the
  wrapper member is skipped as an unknown one, and \<^verbatim>\<open>OldLocation\<close> keeps the \<^verbatim>\<open>nil\<close> it
  was declared with.
\<close>

definition jio_Load_promoted ::
  "('pg, 'bl, 'ad, 'bd, 'dp, 'lu, 'wu, 'ds) collaborators \<Rightarrow>
   ('path \<Rightarrow> 'err + ('pg, 'bl, 'ad, 'bd, 'dp::zero, 'lu::zero, 'wu::zero, 'ds::zero, 'n::zero)
                        file_object) \<Rightarrow>
   'path \<Rightarrow>
   'err + ('pg, 'bl, 'ad, 'bd, 'dp, 'lu, 'wu, 'ds, 'n, 'en) data" where
  "jio_Load_promoted env fileSystem filePath =
     (case UnmarshalJSONFrom env zero_SheetSettings
             (map_sum (\<lambda>err. err) json_object.truncate (fileSystem filePath)) of
        Inl err \<Rightarrow> Inl err
      | Inr doc \<Rightarrow> Inr (SheetSettings.extend doc (data.fields None)))"

section \<open>Clone\<close>

text \<open>
  For \<^verbatim>\<open>Clone\<close> the four sub-documents are objects in a store and the document holds
  their addresses: the pointer fields are instantiated with \<open>addr\<close>. A store has one heap
  per type of sub-document; an address is an index into the heap, so an allocated address
  is one below the heap's length and a new object gets the length as its address.
\<close>

type_synonym addr = nat

record ('pg, 'bl, 'ad, 'bd) store =
  pages :: "'pg list"
  layouts :: "'bl list"
  attribute_defs :: "'ad list"
  bodies :: "'bd list"

definition heap_read :: "'a list \<Rightarrow> addr \<Rightarrow> 'a option" where
  "heap_read h a = (if a < length h then Some (h ! a) else None)"

definition heap_write :: "'a list \<Rightarrow> addr \<Rightarrow> 'a \<Rightarrow> 'a list" where
  "heap_write h a v = (if a < length h then h[a := v] else h)"

text \<open>
  Modelled from the spec: the \<^verbatim>\<open>Clone\<close> methods of \<^verbatim>\<open>PageSettings\<close>, \<^verbatim>\<open>BlockLayout\<close>,
  \<^verbatim>\<open>AttributeDefs\<close> and \<^verbatim>\<open>Body\<close> are missing from the sources. The spec says cloning
  deep-copies every owned sub-document: the clone is a new object whose content is made
  from the content of the receiver (by \<open>f\<close>; for \<^verbatim>\<open>Body\<close> it may depend on the entity
  passed). On a \<^verbatim>\<open>nil\<close> receiver the copy dereferences \<^verbatim>\<open>nil\<close> and panics: \<open>None\<close>.
\<close>

definition sub_Clone :: "('a \<Rightarrow> 'a) \<Rightarrow> 'a list \<Rightarrow> addr option \<Rightarrow> ('a list \<times> addr) option" where
  "sub_Clone f h p =
     (case p of
        None \<Rightarrow> None
      | Some a \<Rightarrow> (case heap_read h a of
                     None \<Rightarrow> None
                   | Some v \<Rightarrow> Some (h @ [f v], length h)))"

text \<open>
  \<^verbatim>\<open>Clone\<close>: the struct is copied, entity pointer included, and the four pointers of the
  copy are replaced by clones in the order of the source. \<open>Body_Clone\<close> is the content
  function of \<^verbatim>\<open>Body.Clone(entity, nil)\<close>.
\<close>

definition Clone ::
  "('en option \<Rightarrow> 'bd \<Rightarrow> 'bd) \<Rightarrow>
   ('pg, 'bl, 'ad, 'bd) store \<Rightarrow>
   (addr, addr, addr, addr, 'dp, 'lu, 'wu, 'ds, 'n, 'en) SheetSettings \<Rightarrow>
   'en option \<Rightarrow>
   (('pg, 'bl, 'ad, 'bd) store \<times>
    (addr, addr, addr, addr, 'dp, 'lu, 'wu, 'ds, 'n, 'en) SheetSettings) option" where
  "Clone Body_Clone st s entity =
     (case sub_Clone (\<lambda>v. v) (pages st) (Page s) of
        None \<Rightarrow> None
      | Some (pages', pg) \<Rightarrow>
     (case sub_Clone (\<lambda>v. v) (layouts st) (BlockLayout s) of
        None \<Rightarrow> None
      | Some (layouts', bl) \<Rightarrow>
     (case sub_Clone (\<lambda>v. v) (attribute_defs st) (Attributes s) of
        None \<Rightarrow> None
      | Some (attribute_defs', ad) \<Rightarrow>
     (case sub_Clone (Body_Clone entity) (bodies st) (BodyType s) of
        None \<Rightarrow> None
      | Some (bodies', bd) \<Rightarrow>
          Some (\<lparr>pages = pages', layouts = layouts',
                 attribute_defs = attribute_defs', bodies = bodies'\<rparr>,
                s\<lparr>Page := Some pg, BlockLayout := Some bl,
                  Attributes := Some ad, BodyType := Some bd\<rparr>)))))"

section \<open>Effective skill modifier\<close>

datatype difficulty = Easy | Average | Hard | VeryHard

definition Override ::
  "('pg, 'bl, 'ad, 'bd, 'dp, 'lu, 'wu, 'ds, 'n, 'en) SheetSettings \<Rightarrow> difficulty \<Rightarrow> 'n" where
  "Override s tier =
     (case tier of
        Easy \<Rightarrow> EasySkillModifierOverride s
      | Average \<Rightarrow> AverageSkillModifierOverride s
      | Hard \<Rightarrow> HardSkillModifierOverride s
      | VeryHard \<Rightarrow> VeryHardSkillModifierOverride s)"

definition Adjustment ::
  "('pg, 'bl, 'ad, 'bd, 'dp, 'lu, 'wu, 'ds, 'n, 'en) SheetSettings \<Rightarrow> difficulty \<Rightarrow> 'n" where
  "Adjustment s tier =
     (case tier of
        Easy \<Rightarrow> EasySkillModifierAdjustment s
      | Average \<Rightarrow> AverageSkillModifierAdjustment s
      | Hard \<Rightarrow> HardSkillModifierAdjustment s
      | VeryHard \<Rightarrow> VeryHardSkillModifierAdjustment s)"

definition baseline :: "difficulty \<Rightarrow> 'n::ring_1" where
  "baseline tier = (case tier of Easy \<Rightarrow> 0 | Average \<Rightarrow> - 1 | Hard \<Rightarrow> - 2 | VeryHard \<Rightarrow> - 3)"

text \<open>
  Modelled from the spec: the function that resolves the effective modifier of a
  difficulty tier is missing from the sources, which only hold the eight fields, the mode
  switch and the dialog that edits them. The spec's ModifierResolver: when
  \<^verbatim>\<open>UseSkillModifierAdjustments\<close> is false the result is the baseline of the tier plus its
  adjustment; when it is true the result is the override of the tier.
\<close>

definition EffectiveModifier ::
  "('pg, 'bl, 'ad, 'bd, 'dp, 'lu, 'wu, 'ds, 'n::ring_1, 'en) SheetSettings \<Rightarrow> difficulty \<Rightarrow> 'n" where
  "EffectiveModifier s tier =
     (if UseSkillModifierAdjustments s then Override s tier
      else baseline tier + Adjustment s tier)"

section \<open>Concrete collaborators and documents\<close>

text \<open>
  One concrete choice of the collaborators, on which the theorems are exercised:
  sub-documents and enumeration values are numbers, a validity routine maps an invalid
  value to the lowest valid one.
\<close>

definition sample_collaborators :: "(nat, nat, nat, nat, nat, nat, nat, nat) collaborators" where
  "sample_collaborators =
     \<lparr>NewPageSettings = 1,
      PageSettings_EnsureValidity = (\<lambda>p. if p = 0 then 1 else p),
      NewBlockLayout = 1,
      BlockLayout_EnsureValidity = (\<lambda>b. if b = 0 then 1 else b),
      FactoryAttributeDefs = 1,
      FactoryBody = 1,
      progression_EnsureValid = (\<lambda>e. if e \<le> 7 then e else 0),
      LengthUnit_EnsureValid = (\<lambda>e. if e \<le> 7 then e else 0),
      WeightUnit_EnsureValid = (\<lambda>e. if e \<le> 7 then e else 0),
      display_EnsureValid = (\<lambda>e. if e \<le> 3 then e else 0),
      progression_BasicSet = 0,
      fxp_FeetAndInches = 0,
      fxp_Pound = 0,
      display_Tooltip = 2,
      display_Inline = 1\<rparr>"

text \<open>A hand-made document: sub-documents missing or invalid, enumerations out of range,
  the mirror flag inconsistent.\<close>

definition broken_sample ::
  "(nat, nat, nat, nat, nat, nat, nat, nat, int, nat) SheetSettings" where
  "broken_sample =
     zero_SheetSettings\<lparr>Page := Some 0, DamageProgression := 200, NotesDisplay := 9,
                        ShowPDColumn := True\<rparr>"

text \<open>
  Two documents at which the heuristic fires although a dodge setting was made: a dodge
  override, and the three passive-defense switches.
\<close>

definition dodge_override_sample ::
  "(nat, nat, nat, nat, nat, nat, nat, nat, int, nat) SheetSettings" where
  "dodge_override_sample = zero_SheetSettings\<lparr>DodgeOverride := 5\<rparr>"

definition passive_defense_sample ::
  "(nat, nat, nat, nat, nat, nat, nat, nat, int, nat) SheetSettings" where
  "passive_defense_sample =
     zero_SheetSettings\<lparr>IncludePDArmor := True, IncludePDShields := True,
                        UsePassiveDefense := True\<rparr>"

text \<open>
  A file system with three files: \<^verbatim>\<open>{"sheet_settings": {"hide_tl_column": true}}\<close>, the
  empty object, and an object with an enumeration out of range and the mirror flag
  inconsistent. The loader over it is the one described above.
\<close>

definition legacy_nested_object :: "(nat, nat, nat, nat, nat, nat, nat, nat, int) json_object" where
  "legacy_nested_object = empty_json_object\<lparr>hide_tl_column := Some True\<rparr>"

definition sample_fileSystem ::
  "string \<Rightarrow> string + (nat, nat, nat, nat, nat, nat, nat, nat, int) file_object" where
  "sample_fileSystem filePath =
     (if filePath = ''legacy.sheet'' then
        Inr (json_object.extend empty_json_object
               (file_object.fields (Some legacy_nested_object)))
      else if filePath = ''empty.sheet'' then
        Inr (json_object.extend empty_json_object (file_object.fields None))
      else if filePath = ''broken.sheet'' then
        Inr (json_object.extend
               (empty_json_object\<lparr>damage_progression := Some 200, show_pd_column := Some True\<rparr>)
               (file_object.fields None))
      else Inl ''file does not exist'')"

definition sample_Load ::
  "(string \<Rightarrow> string + (nat, nat, nat, nat, nat, nat, nat, nat, int) file_object) \<Rightarrow>
   string \<Rightarrow> string + (nat, nat, nat, nat, nat, nat, nat, nat, int, nat) data" where
  "sample_Load fileSystem filePath = jio_Load_promoted sample_collaborators fileSystem filePath"

text \<open>
  A loader for a file that holds what saving the factory defaults wrote: the object is
  decoded by the document's own \<^verbatim>\<open>UnmarshalJSONFrom\<close>, and there is no wrapper member.
\<close>

definition sample_saved_jio_Load ::
  "string \<Rightarrow> string \<Rightarrow>
   string + (nat, nat, nat, nat, nat, nat, nat, nat, int, nat) data" where
  "sample_saved_jio_Load fileSystem filePath =
     map_sum (\<lambda>err. err) (\<lambda>top. SheetSettings.extend top (data.fields None))
       (UnmarshalJSONFrom sample_collaborators zero_SheetSettings
          (Inr (MarshalJSONTo
             (FactorySheetSettings sample_collaborators
                :: (nat, nat, nat, nat, nat, nat, nat, nat, int, nat) SheetSettings))))"

text \<open>A store with one object of each type, and a document that points to them.\<close>

definition sample_store :: "(nat, nat, nat, nat) store" where
  "sample_store = \<lparr>pages = [10], layouts = [20], attribute_defs = [30], bodies = [40]\<rparr>"

definition sample_stored ::
  "(addr, addr, addr, addr, nat, nat, nat, nat, int, nat) SheetSettings" where
  "sample_stored =
     zero_SheetSettings\<lparr>Page := Some 0, BlockLayout := Some 0, Attributes := Some 0,
                        BodyType := Some 0\<rparr>"

section \<open>EnsureValidity: what it does to each field\<close>

lemma legacyHeuristicFires_iff:
  "legacyHeuristicFires s \<longleftrightarrow>
     (\<not> IncludeDodgeFlatBonus s \<and> \<not> UseBasicMoveForDodge s \<and>
      \<not> UseSkillModifierAdjustments s \<and>
      EasySkillModifierOverride s = 0 \<and> AverageSkillModifierOverride s = 0 \<and>
      HardSkillModifierOverride s = 0 \<and> VeryHardSkillModifierOverride s = 0 \<and>
      EasySkillModifierAdjustment s = 0 \<and> AverageSkillModifierAdjustment s = 0 \<and>
      HardSkillModifierAdjustment s = 0 \<and> VeryHardSkillModifierAdjustment s = 0)"
  by (simp add: legacyHeuristicFires_def dodgeFieldsAtDefaults_def
      skillModifierFieldsAtDefaults_def)

text \<open>The test reads none of the fields that the earlier steps and the last step write.\<close>

lemma legacyHeuristicFires_frame:
  "legacyHeuristicFires (s\<lparr>Page := pg\<rparr>) = legacyHeuristicFires s"
  "legacyHeuristicFires (s\<lparr>BlockLayout := bl\<rparr>) = legacyHeuristicFires s"
  "legacyHeuristicFires (s\<lparr>Attributes := ad\<rparr>) = legacyHeuristicFires s"
  "legacyHeuristicFires (s\<lparr>BodyType := bd\<rparr>) = legacyHeuristicFires s"
  "legacyHeuristicFires (s\<lparr>DamageProgression := dp\<rparr>) = legacyHeuristicFires s"
  "legacyHeuristicFires (s\<lparr>DefaultLengthUnits := lu\<rparr>) = legacyHeuristicFires s"
  "legacyHeuristicFires (s\<lparr>DefaultWeightUnits := wu\<rparr>) = legacyHeuristicFires s"
  "legacyHeuristicFires (s\<lparr>UserDescriptionDisplay := d1\<rparr>) = legacyHeuristicFires s"
  "legacyHeuristicFires (s\<lparr>ModifiersDisplay := d2\<rparr>) = legacyHeuristicFires s"
  "legacyHeuristicFires (s\<lparr>NotesDisplay := d3\<rparr>) = legacyHeuristicFires s"
  "legacyHeuristicFires (s\<lparr>SkillLevelAdjDisplay := d4\<rparr>) = legacyHeuristicFires s"
  "legacyHeuristicFires (s\<lparr>ShowPDColumn := b\<rparr>) = legacyHeuristicFires s"
  "\<not> legacyHeuristicFires (s\<lparr>IncludeDodgeFlatBonus := True\<rparr>)"
  by (simp_all add: legacyHeuristicFires_def dodgeFieldsAtDefaults_def
      skillModifierFieldsAtDefaults_def)

text \<open>The whole routine as one update of the input document.\<close>

lemma EnsureValidity_unfold:
  "EnsureValidity env s =
     s\<lparr>Page := (case Page s of None \<Rightarrow> Some (NewPageSettings env)
                            | Some p \<Rightarrow> Some (PageSettings_EnsureValidity env p)),
       BlockLayout := (case BlockLayout s of None \<Rightarrow> Some (NewBlockLayout env)
                                 | Some b \<Rightarrow> Some (BlockLayout_EnsureValidity env b)),
       Attributes := (case Attributes s of None \<Rightarrow> Some (FactoryAttributeDefs env)
                                | Some a \<Rightarrow> Some a),
       BodyType := (case BodyType s of None \<Rightarrow> Some (FactoryBody env) | Some b \<Rightarrow> Some b),
       DamageProgression := progression_EnsureValid env (DamageProgression s),
       DefaultLengthUnits := LengthUnit_EnsureValid env (DefaultLengthUnits s),
       DefaultWeightUnits := WeightUnit_EnsureValid env (DefaultWeightUnits s),
       UserDescriptionDisplay := display_EnsureValid env (UserDescriptionDisplay s),
       ModifiersDisplay := display_EnsureValid env (ModifiersDisplay s),
       NotesDisplay := display_EnsureValid env (NotesDisplay s),
       SkillLevelAdjDisplay := display_EnsureValid env (SkillLevelAdjDisplay s),
       IncludeDodgeFlatBonus := (legacyHeuristicFires s \<or> IncludeDodgeFlatBonus s),
       ShowPDColumn := UsePassiveDefense s\<rparr>"
proof (cases "Attributes s")
  case None
  note attrs = this
  show ?thesis
  proof (cases "BodyType s")
    case None
    with attrs show ?thesis
      by (cases "legacyHeuristicFires s")
         (simp_all add: EnsureValidity_def legacyHeuristicFires_frame)
  next
    case (Some b)
    with attrs show ?thesis
      by (cases "legacyHeuristicFires s")
         (simp_all add: EnsureValidity_def legacyHeuristicFires_frame)
  qed
next
  case (Some a)
  note attrs = this
  show ?thesis
  proof (cases "BodyType s")
    case None
    with attrs show ?thesis
      by (cases "legacyHeuristicFires s")
         (simp_all add: EnsureValidity_def legacyHeuristicFires_frame)
  next
    case (Some b)
    with attrs show ?thesis
      by (cases "legacyHeuristicFires s")
         (simp_all add: EnsureValidity_def legacyHeuristicFires_frame)
  qed
qed

lemma IncludeDodgeFlatBonus_EnsureValidity:
  "IncludeDodgeFlatBonus (EnsureValidity env s)
     = (legacyHeuristicFires s \<or> IncludeDodgeFlatBonus s)"
  by (simp add: EnsureValidity_unfold)

lemma EnsureValidity_when_fires:
  "legacyHeuristicFires s \<Longrightarrow>
   EnsureValidity env s = EnsureValidity env (s\<lparr>IncludeDodgeFlatBonus := True\<rparr>)"
  by (simp add: EnsureValidity_unfold legacyHeuristicFires_frame)

lemma not_fires_EnsureValidity: "\<not> legacyHeuristicFires (EnsureValidity env s)"
proof (cases "legacyHeuristicFires s")
  case True
  then show ?thesis by (simp add: EnsureValidity_unfold legacyHeuristicFires_frame)
next
  case False
  then show ?thesis by (simp add: EnsureValidity_unfold legacyHeuristicFires_frame)
qed

lemma ShowTraitModifierAdj_EnsureValidity:
  "ShowTraitModifierAdj (EnsureValidity env s) = ShowTraitModifierAdj s"
  by (simp add: EnsureValidity_unfold)

lemma EnsureValidity_heals:
  "Page (EnsureValidity env s) \<noteq> None"
  "BlockLayout (EnsureValidity env s) \<noteq> None"
  "Attributes (EnsureValidity env s) \<noteq> None"
  "BodyType (EnsureValidity env s) \<noteq> None"
  "DamageProgression (EnsureValidity env s) \<in> range (progression_EnsureValid env)"
  "DefaultLengthUnits (EnsureValidity env s) \<in> range (LengthUnit_EnsureValid env)"
  "DefaultWeightUnits (EnsureValidity env s) \<in> range (WeightUnit_EnsureValid env)"
  "UserDescriptionDisplay (EnsureValidity env s) \<in> range (display_EnsureValid env)"
  "ModifiersDisplay (EnsureValidity env s) \<in> range (display_EnsureValid env)"
  "NotesDisplay (EnsureValidity env s) \<in> range (display_EnsureValid env)"
  "SkillLevelAdjDisplay (EnsureValidity env s) \<in> range (display_EnsureValid env)"
  "ShowPDColumn (EnsureValidity env s) = UsePassiveDefense (EnsureValidity env s)"
  by (simp_all add: EnsureValidity_unfold split: option.splits)

lemma zero_SheetSettings_fields:
  "\<not> IncludeDodgeFlatBonus zero_SheetSettings"
  "\<not> UseBasicMoveForDodge zero_SheetSettings"
  "\<not> UseSkillModifierAdjustments zero_SheetSettings"
  "EasySkillModifierOverride zero_SheetSettings = 0"
  "AverageSkillModifierOverride zero_SheetSettings = 0"
  "HardSkillModifierOverride zero_SheetSettings = 0"
  "VeryHardSkillModifierOverride zero_SheetSettings = 0"
  "EasySkillModifierAdjustment zero_SheetSettings = 0"
  "AverageSkillModifierAdjustment zero_SheetSettings = 0"
  "HardSkillModifierAdjustment zero_SheetSettings = 0"
  "VeryHardSkillModifierAdjustment zero_SheetSettings = 0"
  by (simp_all add: zero_SheetSettings_def zero_SheetSettingsData_def
      SheetSettingsData.defs SheetSettings.defs)

section \<open>The claims about EnsureValidity\<close>

text \<open>
  Claim C3. After \<^verbatim>\<open>EnsureValidity\<close>, for every document, the field \<^verbatim>\<open>ShowPDColumn\<close> equals
  the field \<^verbatim>\<open>UsePassiveDefense\<close>.
\<close>

theorem EnsureValidity_ShowPDColumn_synced:
  "ShowPDColumn (EnsureValidity env s) = UsePassiveDefense (EnsureValidity env s)"
  by (simp add: EnsureValidity_unfold)

text \<open>
  Claim C1, as amended. The heuristic tests eleven fields: \<^verbatim>\<open>IncludeDodgeFlatBonus\<close>,
  \<^verbatim>\<open>UseBasicMoveForDodge\<close>, the mode switch \<^verbatim>\<open>UseSkillModifierAdjustments\<close> and the eight
  skill-modifier numbers. When all eleven are at their zero values, \<^verbatim>\<open>EnsureValidity\<close> sets
  \<^verbatim>\<open>IncludeDodgeFlatBonus\<close> to true, and that is all the heuristic does: the result is the
  one obtained from the same document with the flag already set. When any of the eleven
  is not at its zero value, \<^verbatim>\<open>IncludeDodgeFlatBonus\<close> keeps its original value. The other
  dodge settings (\<^verbatim>\<open>DodgeOverride\<close>, \<^verbatim>\<open>IncludePDArmor\<close>, \<^verbatim>\<open>IncludePDShields\<close>,
  \<^verbatim>\<open>UsePassiveDefense\<close>, \<^verbatim>\<open>ShowPDColumn\<close>) are not tested, as the note in the source says of
  the passive-defense fields.
\<close>

theorem legacy_heuristic_forces_flat_bonus:
  "(\<not> IncludeDodgeFlatBonus s \<and> \<not> UseBasicMoveForDodge s \<and>
    \<not> UseSkillModifierAdjustments s \<and>
    EasySkillModifierOverride s = 0 \<and> AverageSkillModifierOverride s = 0 \<and>
    HardSkillModifierOverride s = 0 \<and> VeryHardSkillModifierOverride s = 0 \<and>
    EasySkillModifierAdjustment s = 0 \<and> AverageSkillModifierAdjustment s = 0 \<and>
    HardSkillModifierAdjustment s = 0 \<and> VeryHardSkillModifierAdjustment s = 0 \<longrightarrow>
      IncludeDodgeFlatBonus (EnsureValidity env s) \<and>
      EnsureValidity env s = EnsureValidity env (s\<lparr>IncludeDodgeFlatBonus := True\<rparr>)) \<and>
   (IncludeDodgeFlatBonus s \<or> UseBasicMoveForDodge s \<or> UseSkillModifierAdjustments s \<or>
    EasySkillModifierOverride s \<noteq> 0 \<or> AverageSkillModifierOverride s \<noteq> 0 \<or>
    HardSkillModifierOverride s \<noteq> 0 \<or> VeryHardSkillModifierOverride s \<noteq> 0 \<or>
    EasySkillModifierAdjustment s \<noteq> 0 \<or> AverageSkillModifierAdjustment s \<noteq> 0 \<or>
    HardSkillModifierAdjustment s \<noteq> 0 \<or> VeryHardSkillModifierAdjustment s \<noteq> 0 \<longrightarrow>
      IncludeDodgeFlatBonus (EnsureValidity env s) = IncludeDodgeFlatBonus s)"
proof (intro conjI impI)
  assume "\<not> IncludeDodgeFlatBonus s \<and> \<not> UseBasicMoveForDodge s \<and>
    \<not> UseSkillModifierAdjustments s \<and>
    EasySkillModifierOverride s = 0 \<and> AverageSkillModifierOverride s = 0 \<and>
    HardSkillModifierOverride s = 0 \<and> VeryHardSkillModifierOverride s = 0 \<and>
    EasySkillModifierAdjustment s = 0 \<and> AverageSkillModifierAdjustment s = 0 \<and>
    HardSkillModifierAdjustment s = 0 \<and> VeryHardSkillModifierAdjustment s = 0"
  then have fires: "legacyHeuristicFires s"
    by (simp add: legacyHeuristicFires_iff)
  then show "IncludeDodgeFlatBonus (EnsureValidity env s)"
    by (simp add: IncludeDodgeFlatBonus_EnsureValidity)
  from fires
  show "EnsureValidity env s = EnsureValidity env (s\<lparr>IncludeDodgeFlatBonus := True\<rparr>)"
    by (rule EnsureValidity_when_fires)
next
  assume "IncludeDodgeFlatBonus s \<or> UseBasicMoveForDodge s \<or> UseSkillModifierAdjustments s \<or>
    EasySkillModifierOverride s \<noteq> 0 \<or> AverageSkillModifierOverride s \<noteq> 0 \<or>
    HardSkillModifierOverride s \<noteq> 0 \<or> VeryHardSkillModifierOverride s \<noteq> 0 \<or>
    EasySkillModifierAdjustment s \<noteq> 0 \<or> AverageSkillModifierAdjustment s \<noteq> 0 \<or>
    HardSkillModifierAdjustment s \<noteq> 0 \<or> VeryHardSkillModifierAdjustment s \<noteq> 0"
  then have "\<not> legacyHeuristicFires s"
    unfolding legacyHeuristicFires_iff by blast
  then show "IncludeDodgeFlatBonus (EnsureValidity env s) = IncludeDodgeFlatBonus s"
    by (simp add: IncludeDodgeFlatBonus_EnsureValidity)
qed

text \<open>
  The theorem at the zero document, where the heuristic fires, and at the zero document
  in override mode, where it does not.
\<close>

theorem legacy_heuristic_forces_flat_bonus_witness:
  "IncludeDodgeFlatBonus
     (EnsureValidity sample_collaborators
        (zero_SheetSettings :: (nat, nat, nat, nat, nat, nat, nat, nat, int, nat) SheetSettings)) \<and>
   IncludeDodgeFlatBonus
     (EnsureValidity sample_collaborators
        ((zero_SheetSettings :: (nat, nat, nat, nat, nat, nat, nat, nat, int, nat) SheetSettings)
           \<lparr>UseSkillModifierAdjustments := True\<rparr>)) = False"
proof
  let ?z = "zero_SheetSettings :: (nat, nat, nat, nat, nat, nat, nat, nat, int, nat) SheetSettings"
  have "\<not> IncludeDodgeFlatBonus ?z \<and> \<not> UseBasicMoveForDodge ?z \<and>
    \<not> UseSkillModifierAdjustments ?z \<and>
    EasySkillModifierOverride ?z = 0 \<and> AverageSkillModifierOverride ?z = 0 \<and>
    HardSkillModifierOverride ?z = 0 \<and> VeryHardSkillModifierOverride ?z = 0 \<and>
    EasySkillModifierAdjustment ?z = 0 \<and> AverageSkillModifierAdjustment ?z = 0 \<and>
    HardSkillModifierAdjustment ?z = 0 \<and> VeryHardSkillModifierAdjustment ?z = 0"
    by (simp add: zero_SheetSettings_fields)
  with legacy_heuristic_forces_flat_bonus [of ?z sample_collaborators]
  show "IncludeDodgeFlatBonus (EnsureValidity sample_collaborators ?z)"
    by blast
  have "UseSkillModifierAdjustments (?z\<lparr>UseSkillModifierAdjustments := True\<rparr>)"
    by simp
  with legacy_heuristic_forces_flat_bonus
         [of "?z\<lparr>UseSkillModifierAdjustments := True\<rparr>" sample_collaborators]
  have "IncludeDodgeFlatBonus
          (EnsureValidity sample_collaborators (?z\<lparr>UseSkillModifierAdjustments := True\<rparr>))
        = IncludeDodgeFlatBonus (?z\<lparr>UseSkillModifierAdjustments := True\<rparr>)"
    by blast
  then show "IncludeDodgeFlatBonus
          (EnsureValidity sample_collaborators (?z\<lparr>UseSkillModifierAdjustments := True\<rparr>))
        = False"
    by (simp add: zero_SheetSettings_fields)
qed

text \<open>
  The claim as first worded, with every dodge-related field among those whose non-default
  value keeps the flag, fails: a document whose only setting is a dodge override of 5,
  and one whose only settings are the three passive-defense switches, both have
  \<^verbatim>\<open>IncludeDodgeFlatBonus\<close> false before \<^verbatim>\<open>EnsureValidity\<close> and true after it.
\<close>

theorem legacy_heuristic_fires_despite_dodge_settings:
  "DodgeOverride dodge_override_sample \<noteq> 0 \<and>
   \<not> IncludeDodgeFlatBonus dodge_override_sample \<and>
   IncludeDodgeFlatBonus (EnsureValidity sample_collaborators dodge_override_sample) \<and>
   IncludePDArmor passive_defense_sample \<and> IncludePDShields passive_defense_sample \<and>
   UsePassiveDefense passive_defense_sample \<and>
   \<not> IncludeDodgeFlatBonus passive_defense_sample \<and>
   IncludeDodgeFlatBonus (EnsureValidity sample_collaborators passive_defense_sample)"
  by (simp add: IncludeDodgeFlatBonus_EnsureValidity legacyHeuristicFires_iff
      dodge_override_sample_def passive_defense_sample_def zero_SheetSettings_fields)

text \<open>
  Claim C10. The test of the heuristic holds exactly when \<^verbatim>\<open>IncludeDodgeFlatBonus\<close>,
  \<^verbatim>\<open>UseBasicMoveForDodge\<close> and \<^verbatim>\<open>UseSkillModifierAdjustments\<close> are false and the four
  overrides and the four adjustments are zero. Changing \<^verbatim>\<open>DodgeOverride\<close>,
  \<^verbatim>\<open>IncludePDArmor\<close>, \<^verbatim>\<open>IncludePDShields\<close> and \<^verbatim>\<open>UsePassiveDefense\<close> to any values does not
  change whether it holds. The test is what decides \<^verbatim>\<open>EnsureValidity\<close>: the routine changes
  \<^verbatim>\<open>IncludeDodgeFlatBonus\<close> exactly when the test holds on the document it is given.
\<close>

theorem legacy_heuristic_fires_exactly:
  "(legacyHeuristicFires s \<longleftrightarrow>
      (\<not> IncludeDodgeFlatBonus s \<and> \<not> UseBasicMoveForDodge s \<and>
       \<not> UseSkillModifierAdjustments s \<and>
       EasySkillModifierOverride s = 0 \<and> AverageSkillModifierOverride s = 0 \<and>
       HardSkillModifierOverride s = 0 \<and> VeryHardSkillModifierOverride s = 0 \<and>
       EasySkillModifierAdjustment s = 0 \<and> AverageSkillModifierAdjustment s = 0 \<and>
       HardSkillModifierAdjustment s = 0 \<and> VeryHardSkillModifierAdjustment s = 0)) \<and>
   legacyHeuristicFires
     (s\<lparr>DodgeOverride := d, IncludePDArmor := a, IncludePDShields := b,
        UsePassiveDefense := p\<rparr>)
     = legacyHeuristicFires s \<and>
   (IncludeDodgeFlatBonus (EnsureValidity env s) \<noteq> IncludeDodgeFlatBonus s)
     = legacyHeuristicFires s"
proof (intro conjI)
  show "legacyHeuristicFires
     (s\<lparr>DodgeOverride := d, IncludePDArmor := a, IncludePDShields := b,
        UsePassiveDefense := p\<rparr>)
     = legacyHeuristicFires s"
    by (simp add: legacyHeuristicFires_iff)
  show "(IncludeDodgeFlatBonus (EnsureValidity env s) \<noteq> IncludeDodgeFlatBonus s)
     = legacyHeuristicFires s"
  proof (cases "legacyHeuristicFires s")
    case True
    then have "\<not> IncludeDodgeFlatBonus s"
      by (simp add: legacyHeuristicFires_iff)
    with True show ?thesis
      by (simp add: IncludeDodgeFlatBonus_EnsureValidity)
  next
    case False
    then show ?thesis
      by (simp add: IncludeDodgeFlatBonus_EnsureValidity)
  qed
qed (rule legacyHeuristicFires_iff)

text \<open>
  Claim C4. \<^verbatim>\<open>EnsureValidity\<close> is idempotent on every document, whatever its sub-documents
  and enumeration values are. The validity routines of the page settings, the block layout
  and the four enumerations are collaborators outside these sources; what is needed of
  them is that each is idempotent itself and that the factory page settings and block
  layout, which a first pass installs without validating them, are valid.
\<close>

theorem EnsureValidity_idempotent:
  assumes "\<And>p. PageSettings_EnsureValidity env (PageSettings_EnsureValidity env p)
                 = PageSettings_EnsureValidity env p"
    and "PageSettings_EnsureValidity env (NewPageSettings env) = NewPageSettings env"
    and "\<And>b. BlockLayout_EnsureValidity env (BlockLayout_EnsureValidity env b)
                 = BlockLayout_EnsureValidity env b"
    and "BlockLayout_EnsureValidity env (NewBlockLayout env) = NewBlockLayout env"
    and "\<And>e. progression_EnsureValid env (progression_EnsureValid env e)
                 = progression_EnsureValid env e"
    and "\<And>e. LengthUnit_EnsureValid env (LengthUnit_EnsureValid env e)
                 = LengthUnit_EnsureValid env e"
    and "\<And>e. WeightUnit_EnsureValid env (WeightUnit_EnsureValid env e)
                 = WeightUnit_EnsureValid env e"
    and "\<And>e. display_EnsureValid env (display_EnsureValid env e) = display_EnsureValid env e"
  shows "EnsureValidity env (EnsureValidity env s) = EnsureValidity env s"
proof -
  have "\<not> legacyHeuristicFires (EnsureValidity env s)"
    by (rule not_fires_EnsureValidity)
  then show ?thesis
    apply (subst EnsureValidity_unfold [of env "EnsureValidity env s"])
    apply (simp add: IncludeDodgeFlatBonus_EnsureValidity)
    apply (simp add: EnsureValidity_unfold assms split: option.splits)
    done
qed

text \<open>
  The hypothesis on the factory page settings cannot be dropped: where the validity
  routine changes them, a document without page settings is changed by a second pass.
\<close>

lemma EnsureValidity_not_idempotent_on_invalid_factory:
  assumes "PageSettings_EnsureValidity env (NewPageSettings env) \<noteq> NewPageSettings env"
    and "Page s = None"
  shows "EnsureValidity env (EnsureValidity env s) \<noteq> EnsureValidity env s"
proof -
  have "Page (EnsureValidity env s) = Some (NewPageSettings env)"
    using assms(2) by (simp add: EnsureValidity_unfold)
  moreover from this have "Page (EnsureValidity env (EnsureValidity env s))
      = Some (PageSettings_EnsureValidity env (NewPageSettings env))"
    by (simp add: EnsureValidity_unfold [of env "EnsureValidity env s"])
  ultimately show ?thesis
    using assms(1) by auto
qed

text \<open>
  The theorem at the hand-made invalid document, which the first pass does change.
\<close>

theorem EnsureValidity_idempotent_witness:
  "EnsureValidity sample_collaborators (EnsureValidity sample_collaborators broken_sample)
     = EnsureValidity sample_collaborators broken_sample \<and>
   EnsureValidity sample_collaborators broken_sample \<noteq> broken_sample"
proof
  show "EnsureValidity sample_collaborators (EnsureValidity sample_collaborators broken_sample)
     = EnsureValidity sample_collaborators broken_sample"
    by (rule EnsureValidity_idempotent) (simp_all add: sample_collaborators_def)
  have "ShowPDColumn broken_sample"
    by (simp add: broken_sample_def)
  moreover have "\<not> ShowPDColumn (EnsureValidity sample_collaborators broken_sample)"
    by (simp add: EnsureValidity_unfold broken_sample_def zero_SheetSettings_def
        zero_SheetSettingsData_def SheetSettingsData.defs SheetSettings.defs)
  ultimately show "EnsureValidity sample_collaborators broken_sample \<noteq> broken_sample"
    by metis
qed


section \<open>Decoding and encoding\<close>

lemma member_or_zero_omitzero: "member_or_zero (omitzero v) = v"
  by (simp add: member_or_zero_def omitzero_def)

lemma member_or_false_omitzero_bool: "member_or_false (omitzero_bool b) = b"
  by (simp add: member_or_false_def omitzero_bool_def)

lemma member_or_zero_Some: "member_or_zero (Some v) = v"
  by (simp add: member_or_zero_def)

lemma member_or_false_None: "member_or_false None = False"
  by (simp add: member_or_false_def)

lemma member_or_false_iff: "member_or_false m \<longleftrightarrow> m = Some True"
  by (cases m) (simp_all add: member_or_false_def)

text \<open>Decoding what was encoded gives the data back, with no deprecated member.\<close>

lemma decode_MarshalJSONTo:
  "SheetSettingsData.truncate (decode_content (MarshalJSONTo s)) = SheetSettingsData.truncate s"
  "OldBodyType (decode_content (MarshalJSONTo s)) = None"
  "OldShowTraitModifierAdj (decode_content (MarshalJSONTo s)) = False"
  by (simp_all add: decode_content_def MarshalJSONTo_def SheetSettingsData.defs
      member_or_zero_omitzero member_or_false_omitzero_bool member_or_zero_Some
      member_or_false_None)

lemma extend_truncate_more:
  "SheetSettingsData.extend (SheetSettingsData.truncate s) (SheetSettingsData.more s) = s"
  by (cases s) (simp add: SheetSettingsData.defs)

lemma more_zero_SheetSettings:
  "SheetSettingsData.more zero_SheetSettings = SheetSettings.fields None"
  by (simp add: zero_SheetSettings_def SheetSettingsData.defs)

lemma more_FactorySheetSettings:
  "SheetSettingsData.more (FactorySheetSettings env) = SheetSettings.fields None"
  by (simp add: FactorySheetSettings_def more_zero_SheetSettings)

lemma truncate_extend_data:
  "SheetSettings.truncate (SheetSettings.extend s (data.fields x)) = s"
  "OldLocation (SheetSettings.extend s (data.fields x)) = x"
  by (cases s; simp add: SheetSettings.defs data.defs)+

text \<open>\<^verbatim>\<open>UnmarshalJSONFrom\<close> on an object: the two migrations as one update, then validity.\<close>

lemma UnmarshalJSONFrom_Inr:
  "UnmarshalJSONFrom env s0 (Inr j) =
     Inr (EnsureValidity env
           ((SheetSettingsData.extend (SheetSettingsData.truncate (decode_content j))
               (SheetSettingsData.more s0))
            \<lparr>BodyType := (case body_type j of None \<Rightarrow> hit_locations j | Some b \<Rightarrow> Some b),
             ShowTraitModifierAdj := (member_or_false (show_trait_modifier_adj j) \<or>
                                      member_or_false (show_advantage_modifier_adj j))\<rparr>))"
proof (cases "body_type j")
  case None
  note body = this
  show ?thesis
  proof (cases "hit_locations j")
    case None
    with body show ?thesis
      by (cases "member_or_false (show_trait_modifier_adj j)";
          cases "member_or_false (show_advantage_modifier_adj j)")
         (simp_all add: UnmarshalJSONFrom_def Let_def decode_content_def SheetSettingsData.defs)
  next
    case (Some h)
    with body show ?thesis
      by (cases "member_or_false (show_trait_modifier_adj j)";
          cases "member_or_false (show_advantage_modifier_adj j)")
         (simp_all add: UnmarshalJSONFrom_def Let_def decode_content_def SheetSettingsData.defs)
  qed
next
  case (Some b)
  then show ?thesis
    by (cases "member_or_false (show_trait_modifier_adj j)";
        cases "member_or_false (show_advantage_modifier_adj j)")
       (simp_all add: UnmarshalJSONFrom_def Let_def decode_content_def SheetSettingsData.defs)
qed

lemma UnmarshalJSONFrom_MarshalJSONTo:
  "SheetSettingsData.more s0 = SheetSettingsData.more s \<Longrightarrow>
   UnmarshalJSONFrom env s0 (Inr (MarshalJSONTo s)) = Inr (EnsureValidity env s)"
  by (simp add: UnmarshalJSONFrom_def Let_def decode_MarshalJSONTo extend_truncate_more)

lemma EnsureValidity_FactorySheetSettings:
  assumes "PageSettings_EnsureValidity env (NewPageSettings env) = NewPageSettings env"
    and "BlockLayout_EnsureValidity env (NewBlockLayout env) = NewBlockLayout env"
    and "progression_EnsureValid env (progression_BasicSet env) = progression_BasicSet env"
    and "LengthUnit_EnsureValid env (fxp_FeetAndInches env) = fxp_FeetAndInches env"
    and "WeightUnit_EnsureValid env (fxp_Pound env) = fxp_Pound env"
    and "display_EnsureValid env (display_Tooltip env) = display_Tooltip env"
    and "display_EnsureValid env (display_Inline env) = display_Inline env"
  shows "EnsureValidity env (FactorySheetSettings env) = FactorySheetSettings env"
  using assms
  by (simp add: EnsureValidity_unfold FactorySheetSettings_def legacyHeuristicFires_iff
      zero_SheetSettings_def zero_SheetSettingsData_def SheetSettingsData.defs SheetSettings.defs)

text \<open>The members that encoding the factory defaults leaves out.\<close>

lemma MarshalJSONTo_FactorySheetSettings_omitted:
  "(let j = MarshalJSONTo (FactorySheetSettings env) in
      use_multiplicative_modifiers j = None \<and> use_modifying_dice_plus_adds j = None \<and>
      use_half_stat_defaults j = None \<and> show_trait_modifier_adj j = None \<and>
      show_equipment_modifier_adj j = None \<and> show_all_weapons j = None \<and>
      hide_source_mismatch j = None \<and> hide_tl_column j = None \<and> hide_lc_column j = None \<and>
      hide_page_ref_column j = None \<and> use_title_in_footer j = None \<and>
      exclude_unspent_points_from_total j = None \<and> show_lifting_st_damage j = None \<and>
      show_iq_based_damage j = None \<and> use_skill_modifier_adjustments j = None \<and>
      easy_skill_modifier_override j = None \<and> average_skill_modifier_override j = None \<and>
      hard_skill_modifier_override j = None \<and> very_hard_skill_modifier_override j = None \<and>
      easy_skill_modifier_adjustment j = None \<and> average_skill_modifier_adjustment j = None \<and>
      hard_skill_modifier_adjustment j = None \<and> very_hard_skill_modifier_adjustment j = None \<and>
      use_basic_move_for_dodge j = None \<and> include_pd_armor j = None \<and>
      include_pd_shields j = None \<and> use_passive_defense j = None \<and>
      show_pd_column j = None \<and> dodge_override j = None \<and>
      show_spell_adj j = Some True \<and> include_dodge_flat_bonus j = Some True)"
  by (simp add: MarshalJSONTo_def FactorySheetSettings_def zero_SheetSettings_def
      zero_SheetSettingsData_def SheetSettingsData.defs SheetSettings.defs
      omitzero_def omitzero_bool_def)

section \<open>The claims about loading and saving\<close>

text \<open>
  Claim C6. \<^verbatim>\<open>UnmarshalJSONFrom\<close> on a JSON object returns a document whose
  \<^verbatim>\<open>ShowTraitModifierAdj\<close> is the disjunction of the deprecated member
  \<^verbatim>\<open>show_advantage_modifier_adj\<close> and the current member \<^verbatim>\<open>show_trait_modifier_adj\<close>: it is
  true when either is true, so the migration never turns a flag that is on to off.
\<close>

theorem UnmarshalJSONFrom_ShowTraitModifierAdj:
  "\<exists>s. UnmarshalJSONFrom env s0 (Inr j) = Inr s \<and>
       ShowTraitModifierAdj s =
         (show_advantage_modifier_adj j = Some True \<or> show_trait_modifier_adj j = Some True)"
  by (auto simp add: UnmarshalJSONFrom_Inr ShowTraitModifierAdj_EnsureValidity
      member_or_false_iff)

text \<open>
  The choice between the two locations is written as the claim has it: a wrapper
  document, once in \<^verbatim>\<open>OldLocation\<close>, would be the one returned.
\<close>

lemma NewSheetSettingsFromFile_choice:
  assumes "jio_Load fileSystem filePath = Inr d"
  shows "NewSheetSettingsFromFile env jio_Load fileSystem filePath
           = Inr (EnsureValidity env
                   (case OldLocation d of Some old \<Rightarrow> old | None \<Rightarrow> SheetSettings.truncate d))"
  using assms by (simp add: NewSheetSettingsFromFile_def)

text \<open>The loader never fills \<^verbatim>\<open>OldLocation\<close>, and does not read the wrapper member.\<close>

lemma truncate_extend_json_object:
  "json_object.truncate (json_object.extend j (file_object.fields w)) = j"
  by (cases j) (simp add: json_object.defs file_object.defs)

lemma jio_Load_promoted_OldLocation:
  assumes "jio_Load_promoted env fileSystem filePath = Inr d"
  shows "OldLocation d = None"
  using assms
  by (auto simp add: jio_Load_promoted_def truncate_extend_data split: sum.splits)

lemma jio_Load_promoted_Inr:
  fixes fileSystem :: "'path \<Rightarrow> 'err + ('pg, 'bl, 'ad, 'bd, 'dp::zero, 'lu::zero, 'wu::zero,
                                         'ds::zero, 'n::zero) file_object"
  assumes "fileSystem filePath = Inr (json_object.extend j (file_object.fields w))"
    and "UnmarshalJSONFrom env zero_SheetSettings (Inr j) = (Inr doc :: 'err + _)"
  shows "jio_Load_promoted env fileSystem filePath
           = Inr (SheetSettings.extend doc (data.fields None))"
  using assms by (simp add: jio_Load_promoted_def truncate_extend_json_object)

lemma NewSheetSettingsFromFile_promoted:
  fixes fileSystem :: "'path \<Rightarrow> 'err + ('pg, 'bl, 'ad, 'bd, 'dp::zero, 'lu::zero, 'wu::zero,
                                         'ds::zero, 'n::zero) file_object"
  assumes "fileSystem filePath = Inr (json_object.extend j (file_object.fields w))"
    and "UnmarshalJSONFrom env zero_SheetSettings (Inr j) = (Inr doc :: 'err + _)"
  shows "NewSheetSettingsFromFile env (jio_Load_promoted env) fileSystem filePath
           = Inr (EnsureValidity env doc)"
  using jio_Load_promoted_Inr
          [where fileSystem = fileSystem and filePath = filePath and env = env, OF assms]
  by (simp add: NewSheetSettingsFromFile_def truncate_extend_data)

lemma HideTLColumn_EnsureValidity:
  "HideTLColumn (EnsureValidity env s) = HideTLColumn s"
  by (simp add: EnsureValidity_unfold)

lemma HideTLColumn_UnmarshalJSONFrom:
  assumes "UnmarshalJSONFrom env s0 (Inr j) = Inr s"
  shows "HideTLColumn s = member_or_false (hide_tl_column j)"
  using assms
  by (auto simp add: UnmarshalJSONFrom_Inr HideTLColumn_EnsureValidity decode_content_def
      SheetSettingsData.defs)

text \<open>
  Claim C5. On the code the claim fails. The file \<^verbatim>\<open>legacy.sheet\<close> holds only the wrapper
  key, with a nested document that hides the TL column. Decoded by itself the nested
  document has \<^verbatim>\<open>HideTLColumn\<close> true; the document that \<^verbatim>\<open>NewSheetSettingsFromFile\<close> returns
  for the file has it false, and is the very document returned for the file that holds
  the empty object. For every file, what the wrapper member holds has no influence on
  the result.
\<close>

theorem wrapper_document_is_dropped:
  "sample_fileSystem ''legacy.sheet''
     = Inr (json_object.extend empty_json_object
              (file_object.fields (Some legacy_nested_object))) \<and>
   (\<exists>nested.
      UnmarshalJSONFrom sample_collaborators
        (zero_SheetSettings :: (nat, nat, nat, nat, nat, nat, nat, nat, int, nat) SheetSettings)
        (Inr legacy_nested_object) = (Inr nested :: string + _) \<and>
      HideTLColumn nested) \<and>
   (\<exists>s. NewSheetSettingsFromFile sample_collaborators sample_Load sample_fileSystem
          ''legacy.sheet'' = Inr s \<and> \<not> HideTLColumn s) \<and>
   NewSheetSettingsFromFile sample_collaborators sample_Load sample_fileSystem ''legacy.sheet''
     = NewSheetSettingsFromFile sample_collaborators sample_Load sample_fileSystem ''empty.sheet'' \<and>
   NewSheetSettingsFromFile env (jio_Load_promoted env)
       (\<lambda>path. Inr (json_object.extend j (file_object.fields w))) filePath
     = NewSheetSettingsFromFile env (jio_Load_promoted env)
         (\<lambda>path. Inr (json_object.extend j (file_object.fields None))) filePath"
proof (intro conjI)
  let ?zero = "zero_SheetSettings :: (nat, nat, nat, nat, nat, nat, nat, nat, int, nat) SheetSettings"
  show legacy: "sample_fileSystem ''legacy.sheet''
     = Inr (json_object.extend empty_json_object
              (file_object.fields (Some legacy_nested_object)))"
    by (simp add: sample_fileSystem_def)
  have empty: "sample_fileSystem ''empty.sheet''
     = Inr (json_object.extend empty_json_object (file_object.fields None))"
    by (simp add: sample_fileSystem_def)
  obtain nested where nested:
    "UnmarshalJSONFrom sample_collaborators ?zero (Inr legacy_nested_object)
       = (Inr nested :: string + _)"
    by (simp add: UnmarshalJSONFrom_Inr)
  have "HideTLColumn nested"
    using HideTLColumn_UnmarshalJSONFrom [OF nested]
    by (simp add: legacy_nested_object_def member_or_false_def)
  with nested
  show "\<exists>nested. UnmarshalJSONFrom sample_collaborators ?zero (Inr legacy_nested_object)
                   = (Inr nested :: string + _) \<and> HideTLColumn nested"
    by blast
  obtain doc where doc:
    "UnmarshalJSONFrom sample_collaborators ?zero (Inr empty_json_object)
       = (Inr doc :: string + _)"
    by (simp add: UnmarshalJSONFrom_Inr)
  have "\<not> HideTLColumn doc"
    using HideTLColumn_UnmarshalJSONFrom [OF doc]
    by (simp add: empty_json_object_def member_or_false_def)
  have load_legacy:
    "NewSheetSettingsFromFile sample_collaborators sample_Load sample_fileSystem ''legacy.sheet''
       = Inr (EnsureValidity sample_collaborators doc)"
    using NewSheetSettingsFromFile_promoted
            [where fileSystem = sample_fileSystem and filePath = "''legacy.sheet''"
               and env = sample_collaborators, OF legacy doc]
    by (simp add: sample_Load_def [abs_def])
  have load_empty:
    "NewSheetSettingsFromFile sample_collaborators sample_Load sample_fileSystem ''empty.sheet''
       = Inr (EnsureValidity sample_collaborators doc)"
    using NewSheetSettingsFromFile_promoted
            [where fileSystem = sample_fileSystem and filePath = "''empty.sheet''"
               and env = sample_collaborators, OF empty doc]
    by (simp add: sample_Load_def [abs_def])
  from load_legacy \<open>\<not> HideTLColumn doc\<close>
  show "\<exists>s. NewSheetSettingsFromFile sample_collaborators sample_Load sample_fileSystem
          ''legacy.sheet'' = Inr s \<and> \<not> HideTLColumn s"
    by (simp add: HideTLColumn_EnsureValidity)
  from load_legacy load_empty
  show "NewSheetSettingsFromFile sample_collaborators sample_Load sample_fileSystem ''legacy.sheet''
     = NewSheetSettingsFromFile sample_collaborators sample_Load sample_fileSystem ''empty.sheet''"
    by simp
  show "NewSheetSettingsFromFile env (jio_Load_promoted env)
       (\<lambda>path. Inr (json_object.extend j (file_object.fields w))) filePath
     = NewSheetSettingsFromFile env (jio_Load_promoted env)
         (\<lambda>path. Inr (json_object.extend j (file_object.fields None))) filePath"
    by (simp add: NewSheetSettingsFromFile_def jio_Load_promoted_def
        truncate_extend_json_object)
qed

text \<open>
  Claim C7. \<^verbatim>\<open>NewSheetSettingsFromFile\<close> returns an error exactly when \<^verbatim>\<open>jio.Load\<close>, which
  locates and parses the file, returns one, and then it returns that error. Whatever
  document the load gives, the result is a document: the one chosen, after
  \<^verbatim>\<open>EnsureValidity\<close>, with its four sub-documents present, its enumerations values of their
  validity routines and \<^verbatim>\<open>ShowPDColumn\<close> equal to \<^verbatim>\<open>UsePassiveDefense\<close>. Nothing but the
  document is returned, so a repaired document cannot be told from a clean one.
\<close>

theorem load_fails_only_when_jio_Load_fails:
  "(isl (NewSheetSettingsFromFile env jio_Load fileSystem filePath)
      \<longleftrightarrow> isl (jio_Load fileSystem filePath)) \<and>
   (\<forall>err. jio_Load fileSystem filePath = Inl err \<longrightarrow>
      NewSheetSettingsFromFile env jio_Load fileSystem filePath = Inl err) \<and>
   (\<forall>d. jio_Load fileSystem filePath = Inr d \<longrightarrow>
      (\<exists>s. NewSheetSettingsFromFile env jio_Load fileSystem filePath = Inr s \<and>
           s = EnsureValidity env
                 (case OldLocation d of Some old \<Rightarrow> old | None \<Rightarrow> SheetSettings.truncate d) \<and>
           Page s \<noteq> None \<and> BlockLayout s \<noteq> None \<and> Attributes s \<noteq> None \<and>
           BodyType s \<noteq> None \<and>
           DamageProgression s \<in> range (progression_EnsureValid env) \<and>
           DefaultLengthUnits s \<in> range (LengthUnit_EnsureValid env) \<and>
           DefaultWeightUnits s \<in> range (WeightUnit_EnsureValid env) \<and>
           UserDescriptionDisplay s \<in> range (display_EnsureValid env) \<and>
           ModifiersDisplay s \<in> range (display_EnsureValid env) \<and>
           NotesDisplay s \<in> range (display_EnsureValid env) \<and>
           SkillLevelAdjDisplay s \<in> range (display_EnsureValid env) \<and>
           ShowPDColumn s = UsePassiveDefense s))"
proof (cases "jio_Load fileSystem filePath")
  case (Inl err)
  then show ?thesis
    by (simp add: NewSheetSettingsFromFile_def)
next
  case (Inr d)
  then show ?thesis
    by (simp add: NewSheetSettingsFromFile_def EnsureValidity_heals del: not_None_eq)
qed

text \<open>The theorem at a missing file and at the broken file of the sample file system.\<close>

theorem load_fails_only_when_jio_Load_fails_witness:
  "NewSheetSettingsFromFile sample_collaborators sample_Load sample_fileSystem ''missing.sheet''
     = Inl ''file does not exist'' \<and>
   (\<exists>s. NewSheetSettingsFromFile sample_collaborators sample_Load sample_fileSystem
          ''broken.sheet'' = Inr s \<and>
        ShowPDColumn s = UsePassiveDefense s \<and>
        DamageProgression s \<in> range (progression_EnsureValid sample_collaborators))"
proof
  have "sample_Load sample_fileSystem ''missing.sheet'' = Inl ''file does not exist''"
    by (simp add: sample_Load_def jio_Load_promoted_def sample_fileSystem_def
        UnmarshalJSONFrom_def)
  with load_fails_only_when_jio_Load_fails
         [of sample_collaborators sample_Load sample_fileSystem "''missing.sheet''"]
  show "NewSheetSettingsFromFile sample_collaborators sample_Load sample_fileSystem
          ''missing.sheet'' = Inl ''file does not exist''"
    by blast
  obtain d where "sample_Load sample_fileSystem ''broken.sheet'' = Inr d"
    by (simp add: sample_Load_def jio_Load_promoted_def sample_fileSystem_def
        UnmarshalJSONFrom_Inr truncate_extend_json_object)
  with load_fails_only_when_jio_Load_fails
         [of sample_collaborators sample_Load sample_fileSystem "''broken.sheet''"]
  show "\<exists>s. NewSheetSettingsFromFile sample_collaborators sample_Load sample_fileSystem
          ''broken.sheet'' = Inr s \<and>
        ShowPDColumn s = UsePassiveDefense s \<and>
        DamageProgression s \<in> range (progression_EnsureValid sample_collaborators)"
    by blast
qed

text \<open>
  Claim C8. Saving writes what \<^verbatim>\<open>MarshalJSONTo\<close> encodes. Let loading the file that holds the
  encoded factory defaults decode that object by \<^verbatim>\<open>UnmarshalJSONFrom\<close> into a fresh
  document, with no wrapper member. Then \<^verbatim>\<open>NewSheetSettingsFromFile\<close> returns the factory
  defaults, field for field, the factory defaults are a fixed point of \<^verbatim>\<open>EnsureValidity\<close>,
  and the encoded object lacks every member whose field is zero. The factory values of
  the page settings, the block layout and the enumerations are collaborators outside
  these sources; what is needed of them is that their validity routines keep them.
\<close>

theorem factory_roundtrip:
  fixes env :: "('pg, 'bl, 'ad, 'bd, 'dp::zero, 'lu::zero, 'wu::zero, 'ds::zero) collaborators"
    and jio_Load :: "'fs \<Rightarrow> 'path \<Rightarrow>
      'err + ('pg, 'bl, 'ad, 'bd, 'dp, 'lu, 'wu, 'ds, 'n::zero, 'en) data"
  assumes "PageSettings_EnsureValidity env (NewPageSettings env) = NewPageSettings env"
    and "BlockLayout_EnsureValidity env (NewBlockLayout env) = NewBlockLayout env"
    and "progression_EnsureValid env (progression_BasicSet env) = progression_BasicSet env"
    and "LengthUnit_EnsureValid env (fxp_FeetAndInches env) = fxp_FeetAndInches env"
    and "WeightUnit_EnsureValid env (fxp_Pound env) = fxp_Pound env"
    and "display_EnsureValid env (display_Tooltip env) = display_Tooltip env"
    and "display_EnsureValid env (display_Inline env) = display_Inline env"
    and "jio_Load fileSystem filePath =
           map_sum (\<lambda>err. err) (\<lambda>top. SheetSettings.extend top (data.fields None))
             (UnmarshalJSONFrom env zero_SheetSettings
                (Inr (MarshalJSONTo
                   (FactorySheetSettings env
                      :: ('pg, 'bl, 'ad, 'bd, 'dp, 'lu, 'wu, 'ds, 'n, 'en) SheetSettings))))"
  shows "NewSheetSettingsFromFile env jio_Load fileSystem filePath
           = Inr (FactorySheetSettings env) \<and>
         EnsureValidity env
           (FactorySheetSettings env
              :: ('pg, 'bl, 'ad, 'bd, 'dp, 'lu, 'wu, 'ds, 'n, 'en) SheetSettings)
           = FactorySheetSettings env \<and>
         (let j = MarshalJSONTo
                    (FactorySheetSettings env
                       :: ('pg, 'bl, 'ad, 'bd, 'dp, 'lu, 'wu, 'ds, 'n, 'en) SheetSettings) in
            use_multiplicative_modifiers j = None \<and> use_modifying_dice_plus_adds j = None \<and>
            use_half_stat_defaults j = None \<and> show_trait_modifier_adj j = None \<and>
            show_equipment_modifier_adj j = None \<and> show_all_weapons j = None \<and>
            hide_source_mismatch j = None \<and> hide_tl_column j = None \<and>
            hide_lc_column j = None \<and> hide_page_ref_column j = None \<and>
            use_title_in_footer j = None \<and> exclude_unspent_points_from_total j = None \<and>
            show_lifting_st_damage j = None \<and> show_iq_based_damage j = None \<and>
            use_skill_modifier_adjustments j = None \<and>
            easy_skill_modifier_override j = None \<and>
            average_skill_modifier_override j = None \<and>
            hard_skill_modifier_override j = None \<and>
            very_hard_skill_modifier_override j = None \<and>
            easy_skill_modifier_adjustment j = None \<and>
            average_skill_modifier_adjustment j = None \<and>
            hard_skill_modifier_adjustment j = None \<and>
            very_hard_skill_modifier_adjustment j = None \<and>
            use_basic_move_for_dodge j = None \<and> include_pd_armor j = None \<and>
            include_pd_shields j = None \<and> use_passive_defense j = None \<and>
            show_pd_column j = None \<and> dodge_override j = None \<and>
            show_spell_adj j = Some True \<and> include_dodge_flat_bonus j = Some True)"
proof (intro conjI)
  let ?factory = "FactorySheetSettings env
                    :: ('pg, 'bl, 'ad, 'bd, 'dp, 'lu, 'wu, 'ds, 'n, 'en) SheetSettings"
  show valid: "EnsureValidity env ?factory = ?factory"
    using assms(1-7) by (rule EnsureValidity_FactorySheetSettings)
  have more: "SheetSettingsData.more
                (zero_SheetSettings :: ('pg, 'bl, 'ad, 'bd, 'dp, 'lu, 'wu, 'ds, 'n, 'en) SheetSettings)
              = SheetSettingsData.more ?factory"
    by (simp add: more_FactorySheetSettings more_zero_SheetSettings)
  have "UnmarshalJSONFrom env zero_SheetSettings (Inr (MarshalJSONTo ?factory))
          = (Inr ?factory :: 'err + ('pg, 'bl, 'ad, 'bd, 'dp, 'lu, 'wu, 'ds, 'n, 'en) SheetSettings)"
    using UnmarshalJSONFrom_MarshalJSONTo [OF more, of env] valid by simp
  with assms(8) have "jio_Load fileSystem filePath
      = Inr (SheetSettings.extend ?factory (data.fields None))"
    by simp
  then show "NewSheetSettingsFromFile env jio_Load fileSystem filePath = Inr ?factory"
    by (simp add: NewSheetSettingsFromFile_def truncate_extend_data valid)
qed (rule MarshalJSONTo_FactorySheetSettings_omitted)

text \<open>The theorem at the sample collaborators and the loader of the saved file.\<close>

theorem factory_roundtrip_witness:
  "NewSheetSettingsFromFile sample_collaborators sample_saved_jio_Load ''disk'' ''factory.sheet''
     = Inr (FactorySheetSettings sample_collaborators)"
proof -
  have "NewSheetSettingsFromFile sample_collaborators sample_saved_jio_Load
          ''disk'' ''factory.sheet''
        = Inr (FactorySheetSettings sample_collaborators) \<and>
        EnsureValidity sample_collaborators
          (FactorySheetSettings sample_collaborators
             :: (nat, nat, nat, nat, nat, nat, nat, nat, int, nat) SheetSettings)
        = FactorySheetSettings sample_collaborators"
    using factory_roundtrip
            [where env = sample_collaborators and jio_Load = sample_saved_jio_Load
               and fileSystem = "''disk''" and filePath = "''factory.sheet''"]
    by (simp add: sample_collaborators_def sample_saved_jio_Load_def)
  then show ?thesis ..
qed

section \<open>The claim about Clone\<close>

lemma sub_Clone_allocated:
  assumes "heap_read h a = Some x"
  shows "sub_Clone f h (Some a) = Some (h @ [f x], length h)"
  using assms by (simp add: sub_Clone_def)

lemma sub_Clone_isolated:
  assumes "heap_read h a = Some x"
  shows "length h \<noteq> a"
    and "heap_read h (length h) = None"
    and "heap_read (h @ [f x]) (length h) = Some (f x)"
    and "heap_read (h @ [f x]) a = Some x"
    and "heap_read (heap_write (h @ [f x]) (length h) v) (length h) = Some v"
    and "heap_read (heap_write (h @ [f x]) (length h) v) a = Some x"
  using assms
  by (auto simp add: heap_read_def heap_write_def nth_append split: if_splits)

text \<open>
  Claim C9. Let the four sub-documents of a document be objects of the store. Then
  \<^verbatim>\<open>Clone\<close> returns a document that differs from the original in its four pointers only.
  Each pointer of the clone is an address that was free before, different from the
  original's, and after the call it holds an object of its own: a copy of the original's
  page settings, block layout and attribute definitions, and the clone of the body made
  for the entity passed. The originals are still in the store. Writing any content to a
  sub-document of the clone changes that sub-document and leaves the corresponding
  sub-document of the original with the content it had.
\<close>

theorem Clone_isolation:
  assumes "Page s = Some p" and "heap_read (pages st) p = Some pv"
    and "BlockLayout s = Some b" and "heap_read (layouts st) b = Some bv"
    and "Attributes s = Some a" and "heap_read (attribute_defs st) a = Some av"
    and "BodyType s = Some h" and "heap_read (bodies st) h = Some hv"
  shows "\<exists>st' c p' b' a' h'.
           Clone Body_Clone st s entity = Some (st', c) \<and>
           c = s\<lparr>Page := Some p', BlockLayout := Some b',
                 Attributes := Some a', BodyType := Some h'\<rparr> \<and>
           Page c = Some p' \<and> BlockLayout c = Some b' \<and>
           Attributes c = Some a' \<and> BodyType c = Some h' \<and>
           p' \<noteq> p \<and> b' \<noteq> b \<and> a' \<noteq> a \<and> h' \<noteq> h \<and>
           heap_read (pages st) p' = None \<and> heap_read (layouts st) b' = None \<and>
           heap_read (attribute_defs st) a' = None \<and> heap_read (bodies st) h' = None \<and>
           heap_read (pages st') p' = Some pv \<and>
           heap_read (layouts st') b' = Some bv \<and>
           heap_read (attribute_defs st') a' = Some av \<and>
           heap_read (bodies st') h' = Some (Body_Clone entity hv) \<and>
           heap_read (pages st') p = Some pv \<and>
           heap_read (layouts st') b = Some bv \<and>
           heap_read (attribute_defs st') a = Some av \<and>
           heap_read (bodies st') h = Some hv \<and>
           (\<forall>v. heap_read (heap_write (pages st') p' v) p' = Some v \<and>
                heap_read (heap_write (pages st') p' v) p = Some pv) \<and>
           (\<forall>v. heap_read (heap_write (layouts st') b' v) b' = Some v \<and>
                heap_read (heap_write (layouts st') b' v) b = Some bv) \<and>
           (\<forall>v. heap_read (heap_write (attribute_defs st') a' v) a' = Some v \<and>
                heap_read (heap_write (attribute_defs st') a' v) a = Some av) \<and>
           (\<forall>v. heap_read (heap_write (bodies st') h' v) h' = Some v \<and>
                heap_read (heap_write (bodies st') h' v) h = Some hv)"
proof -
  let ?st' = "\<lparr>pages = pages st @ [pv], layouts = layouts st @ [bv],
               attribute_defs = attribute_defs st @ [av],
               bodies = bodies st @ [Body_Clone entity hv]\<rparr>"
  let ?c = "s\<lparr>Page := Some (length (pages st)), BlockLayout := Some (length (layouts st)),
              Attributes := Some (length (attribute_defs st)),
              BodyType := Some (length (bodies st))\<rparr>"
  note pg = sub_Clone_isolated(1,2) [OF assms(2)]
    sub_Clone_isolated(3-6) [OF assms(2), where f = "\<lambda>v. v"]
  note bl = sub_Clone_isolated(1,2) [OF assms(4)]
    sub_Clone_isolated(3-6) [OF assms(4), where f = "\<lambda>v. v"]
  note ad = sub_Clone_isolated(1,2) [OF assms(6)]
    sub_Clone_isolated(3-6) [OF assms(6), where f = "\<lambda>v. v"]
  note bd = sub_Clone_isolated(1,2) [OF assms(8)]
    sub_Clone_isolated(3-6) [OF assms(8), where f = "Body_Clone entity"]
  have "Clone Body_Clone st s entity = Some (?st', ?c)"
    using assms by (simp add: Clone_def sub_Clone_allocated)
  moreover have "Page ?c = Some (length (pages st))"
    "BlockLayout ?c = Some (length (layouts st))"
    "Attributes ?c = Some (length (attribute_defs st))"
    "BodyType ?c = Some (length (bodies st))"
    by simp_all
  moreover have "length (pages st) \<noteq> p" "length (layouts st) \<noteq> b"
    "length (attribute_defs st) \<noteq> a" "length (bodies st) \<noteq> h"
    by (rule pg(1) bl(1) ad(1) bd(1))+
  moreover have "heap_read (pages st) (length (pages st)) = None"
    "heap_read (layouts st) (length (layouts st)) = None"
    "heap_read (attribute_defs st) (length (attribute_defs st)) = None"
    "heap_read (bodies st) (length (bodies st)) = None"
    by (rule pg(2) bl(2) ad(2) bd(2))+
  moreover have "heap_read (pages ?st') (length (pages st)) = Some pv"
    "heap_read (layouts ?st') (length (layouts st)) = Some bv"
    "heap_read (attribute_defs ?st') (length (attribute_defs st)) = Some av"
    "heap_read (bodies ?st') (length (bodies st)) = Some (Body_Clone entity hv)"
    using pg(3) bl(3) ad(3) bd(3) by simp_all
  moreover have "heap_read (pages ?st') p = Some pv"
    "heap_read (layouts ?st') b = Some bv"
    "heap_read (attribute_defs ?st') a = Some av"
    "heap_read (bodies ?st') h = Some hv"
    using pg(4) bl(4) ad(4) bd(4) by simp_all
  moreover have
    "\<forall>v. heap_read (heap_write (pages ?st') (length (pages st)) v) (length (pages st)) = Some v \<and>
         heap_read (heap_write (pages ?st') (length (pages st)) v) p = Some pv"
    using pg(5,6) by simp
  moreover have
    "\<forall>v. heap_read (heap_write (layouts ?st') (length (layouts st)) v) (length (layouts st))
           = Some v \<and>
         heap_read (heap_write (layouts ?st') (length (layouts st)) v) b = Some bv"
    using bl(5,6) by simp
  moreover have
    "\<forall>v. heap_read (heap_write (attribute_defs ?st') (length (attribute_defs st)) v)
           (length (attribute_defs st)) = Some v \<and>
         heap_read (heap_write (attribute_defs ?st') (length (attribute_defs st)) v) a = Some av"
    using ad(5,6) by simp
  moreover have
    "\<forall>v. heap_read (heap_write (bodies ?st') (length (bodies st)) v) (length (bodies st))
           = Some v \<and>
         heap_read (heap_write (bodies ?st') (length (bodies st)) v) h = Some hv"
    using bd(5,6) by simp
  ultimately show ?thesis
    by (intro exI [of _ ?st'] exI [of _ ?c] exI [of _ "length (pages st)"]
        exI [of _ "length (layouts st)"] exI [of _ "length (attribute_defs st)"]
        exI [of _ "length (bodies st)"]) (intro conjI; (assumption | rule refl))
qed

text \<open>
  The theorem at the sample store and the document that points into it: the clone's page
  settings are a copy, its body is the clone made for the entity, and a write to the
  clone's body reaches the clone and not the original.
\<close>

theorem Clone_isolation_witness:
  "\<exists>st' c p' h'.
     Clone (\<lambda>entity body. body + 1) sample_store sample_stored (Some 7) = Some (st', c) \<and>
     Page c = Some p' \<and> p' \<noteq> 0 \<and> BodyType c = Some h' \<and> h' \<noteq> 0 \<and>
     heap_read (pages st') p' = Some 10 \<and> heap_read (bodies st') h' = Some 41 \<and>
     heap_read (heap_write (bodies st') h' 99) h' = Some 99 \<and>
     heap_read (heap_write (bodies st') h' 99) 0 = Some 40"
proof -
  have "Page sample_stored = Some 0" "BlockLayout sample_stored = Some 0"
    "Attributes sample_stored = Some 0" "BodyType sample_stored = Some 0"
    by (simp_all add: sample_stored_def)
  moreover have "heap_read (pages sample_store) 0 = Some 10"
    "heap_read (layouts sample_store) 0 = Some 20"
    "heap_read (attribute_defs sample_store) 0 = Some 30"
    "heap_read (bodies sample_store) 0 = Some 40"
    by (simp_all add: sample_store_def heap_read_def)
  ultimately obtain st' c p' b' a' h' where
    "Clone (\<lambda>entity body. body + 1) sample_store sample_stored (Some 7) = Some (st', c)"
    "Page c = Some p'" "p' \<noteq> 0" "BodyType c = Some h'" "h' \<noteq> 0"
    "BlockLayout c = Some b'" "Attributes c = Some a'"
    "heap_read (pages st') p' = Some 10" "heap_read (bodies st') h' = Some (40 + 1)"
    "\<forall>v. heap_read (heap_write (bodies st') h' v) h' = Some v \<and>
         heap_read (heap_write (bodies st') h' v) 0 = Some 40"
    using Clone_isolation [of sample_stored 0 sample_store 10 0 20 0 30 0 40
                              "\<lambda>entity body. body + 1" "Some 7"]
    by blast
  then show ?thesis
    by (intro exI [of _ st'] exI [of _ c] exI [of _ p'] exI [of _ h']) simp
qed

section \<open>The claim about the effective skill modifier\<close>

text \<open>
  Claim C2. For each of the four tiers the effective modifier is the override of the tier
  when \<^verbatim>\<open>UseSkillModifierAdjustments\<close> is true, and the baseline of the tier (0, -1, -2, -3
  for Easy, Average, Hard, Very Hard) plus the adjustment of the tier when it is false. In
  override mode the adjustments have no influence, and in adjustment mode the overrides
  have none.
\<close>

theorem EffectiveModifier_resolution:
  "EffectiveModifier s Easy =
     (if UseSkillModifierAdjustments s then EasySkillModifierOverride s
      else 0 + EasySkillModifierAdjustment s) \<and>
   EffectiveModifier s Average =
     (if UseSkillModifierAdjustments s then AverageSkillModifierOverride s
      else - 1 + AverageSkillModifierAdjustment s) \<and>
   EffectiveModifier s Hard =
     (if UseSkillModifierAdjustments s then HardSkillModifierOverride s
      else - 2 + HardSkillModifierAdjustment s) \<and>
   EffectiveModifier s VeryHard =
     (if UseSkillModifierAdjustments s then VeryHardSkillModifierOverride s
      else - 3 + VeryHardSkillModifierAdjustment s) \<and>
   EffectiveModifier
     (s\<lparr>UseSkillModifierAdjustments := True, EasySkillModifierAdjustment := a1,
        AverageSkillModifierAdjustment := a2, HardSkillModifierAdjustment := a3,
        VeryHardSkillModifierAdjustment := a4\<rparr>) tier = Override s tier \<and>
   EffectiveModifier
     (s\<lparr>UseSkillModifierAdjustments := False, EasySkillModifierOverride := o1,
        AverageSkillModifierOverride := o2, HardSkillModifierOverride := o3,
        VeryHardSkillModifierOverride := o4\<rparr>) tier = baseline tier + Adjustment s tier"
  by (cases tier)
     (simp_all add: EffectiveModifier_def Override_def Adjustment_def baseline_def)

end
